theory Spec2Isabelle
  imports Main
begin

section \<open>The token list validator (src/validate.ts)\<close>

text \<open>
  \<^verbatim>\<open>validate(datadir, tokens)\<close> walks the folders of a data directory, loads and
  schema-checks each \<^verbatim>\<open>data.json\<close>, compares every declared token with what the chain
  reports, and returns the list of diagnostics it pushed.  The function is asynchronous
  and effectful; the embedding below makes each effect explicit:

  \<^item> the file system, the JSON and schema libraries, the RPC providers, the CoinGecko
    fetch and the list generator are read from one record of oracles (\<open>env\<close>);
  \<^item> \<^verbatim>\<open>results.push(...)\<close> is state passing over a record that also logs every
    RPC request made, so that "the chain is not queried" is a statement about the log;
  \<^item> an exception that leaves \<^verbatim>\<open>validate\<close> (the promise rejects and no result list
    is returned) is the \<open>Inl\<close> branch of a sum.
\<close>

subsection \<open>Data model\<close>

datatype ResultType = Error | Warning

record ValidationResult =
  type :: ResultType
  message :: string

text \<open>
  The types of \<^verbatim>\<open>./types\<close> as \<^verbatim>\<open>validate.ts\<close> uses them.  An optional field is an
  \<open>option\<close>: \<open>None\<close> is JavaScript's \<^verbatim>\<open>undefined\<close>.
\<close>

record Overrides =
  overrides_name :: "string option"
  overrides_symbol :: "string option"
  overrides_decimals :: "int option"
  overrides_bridge :: "string option"

record Token =
  address :: string
  overrides :: "Overrides option"

text \<open>\<^verbatim>\<open>tokens\<close> is kept as the list \<^verbatim>\<open>Object.entries(data.tokens)\<close> iterates.\<close>

record TokenData =
  name :: string
  symbol :: string
  decimals :: int
  nonstandard :: "bool option"
  nobridge :: "bool option"
  tokens :: "(string \<times> Token) list"

text \<open>
  The object of \<^verbatim>\<open>expectedMismatches.json\<close>.  A field is \<open>None\<close> when the object does not
  have it, and also when its value is not a string: either way it is \<^verbatim>\<open>!==\<close> to every
  declared string.
\<close>

record ExpectedMismatches =
  expectedMismatches_symbol :: "string option"
  expectedMismatches_name :: "string option"

record Network =
  network_id :: nat
  network_name :: string
  provider :: string
  layer :: nat

text \<open>
  \<^verbatim>\<open>NETWORK_DATA\<close> of \<^verbatim>\<open>chains.ts\<close>, a table with the two keys \<^verbatim>\<open>specular\<close> and
  \<^verbatim>\<open>sepolia\<close>; a provider is represented by its URL.  Any other key reads as
  \<^verbatim>\<open>undefined\<close>.
\<close>

definition specular_network :: Network where
  "specular_network =
     \<lparr>network_id = 93481, network_name = ''Specular'',
      provider = ''https://devnet.specular.network/'', layer = 2\<rparr>"

definition sepolia_network :: Network where
  "sepolia_network =
     \<lparr>network_id = 11155111, network_name = ''Sepolia'',
      provider = ''https://eth-sepolia-public.unifra.io'', layer = 1\<rparr>"

definition NETWORK_DATA :: "string \<Rightarrow> Network option" where
  "NETWORK_DATA chain =
     (if chain = ''specular'' then Some specular_network
      else if chain = ''sepolia'' then Some sepolia_network
      else None)"

subsection \<open>The world outside the program\<close>

text \<open>A promise of an RPC request either rejects or resolves to a value.\<close>

datatype 'a promise = Rejected | Resolved 'a

text \<open>
  What \<^verbatim>\<open>fs.existsSync\<close>, \<^verbatim>\<open>fs.readFileSync\<close> and \<^verbatim>\<open>JSON.parse\<close> make of a JSON file:
  it is not there, it is there and does not parse, or it parses to a value.
\<close>

datatype 'a json_file = Missing | Malformed | Parsed 'a

text \<open>One element of \<^verbatim>\<open>v.validate(data, TOKEN_DATA_SCHEMA).errors\<close>.\<close>

record SchemaError =
  error_property :: string
  error_message :: string

text \<open>
  What the libraries report for one folder of the data directory: the two JSON files,
  the number of paths \<^verbatim>\<open>glob.sync\<close> finds for \<^verbatim>\<open>logo.{png,svg}\<close>, and the error list of
  the schema validator on the parsed data (its \<^verbatim>\<open>valid\<close> flag is, in the
  \<^verbatim>\<open>jsonschema\<close> library, the emptiness of that list).

  \<^verbatim>\<open>expectedMismatches.json\<close> is never validated, so it may hold any JSON value.
  \<open>Parsed None\<close> is the value \<^verbatim>\<open>null\<close>, on which reading a field throws a TypeError.
  Every other value that is not an object (a number, a string, a boolean) reads each
  field as \<^verbatim>\<open>undefined\<close>, as the object without fields does, and is represented by it.
\<close>

record FolderFiles =
  data_json :: "TokenData json_file"
  logofiles :: nat
  expectedMismatches_json :: "ExpectedMismatches option json_file"
  schema_errors :: "SchemaError list"

text \<open>
  The outcome of the last step: \<^verbatim>\<open>generate(datadir)\<close> throws, or the compiled schema
  accepts the list, or it rejects it and \<^verbatim>\<open>JSON.stringify(validator.errors, null, 2)\<close>
  is the given text.
\<close>

datatype final_list = GenerateThrows | ListValid | ListInvalid string

text \<open>
  The environment of a run.  \<^verbatim>\<open>fs.readdirSync\<close> gives \<open>None\<close> when it throws (the
  directory is missing or cannot be read).  \<^verbatim>\<open>String.prototype.toLowerCase\<close> and
  \<^verbatim>\<open>String.prototype.localeCompare\<close> are the runtime's, taken as they are.  The
  CoinGecko list is represented by the \<^verbatim>\<open>address\<close> of each element of \<^verbatim>\<open>cg.tokens\<close>,
  in order; \<open>None\<close> when \<^verbatim>\<open>fetch\<close> or \<^verbatim>\<open>json()\<close> throws.
\<close>

record env =
  readdirSync :: "string \<Rightarrow> string list option"
  toLowerCase :: "string \<Rightarrow> string"
  localeCompare :: "string \<Rightarrow> string \<Rightarrow> int"
  path_join :: "string list \<Rightarrow> string"
  folder_files :: "string \<Rightarrow> string \<Rightarrow> FolderFiles"
  fetch_coingecko :: "string list option"
  getCode :: "Network \<Rightarrow> string \<Rightarrow> string promise"
  contract_decimals :: "Network \<Rightarrow> string \<Rightarrow> int promise"
  contract_symbol :: "Network \<Rightarrow> string \<Rightarrow> string promise"
  contract_name :: "Network \<Rightarrow> string \<Rightarrow> string promise"
  generate_list :: "string \<Rightarrow> final_list"

text \<open>The RPC requests, logged in the order they are made.\<close>

datatype rpc_request =
    GetCode Network string
  | CallDecimals Network string
  | CallSymbol Network string
  | CallName Network string

record state =
  results :: "ValidationResult list"
  requests :: "rpc_request list"

text \<open>The exceptions that leave \<^verbatim>\<open>validate\<close>.\<close>

datatype abort =
    ENOENT string
  | SyntaxError string
  | TypeError string
  | RpcError Network string
  | GenerateError

text \<open>
  A run of a part of \<^verbatim>\<open>validate\<close> ends with the state it built, or with an exception
  together with the state at the time it was thrown (which the caller never sees).
\<close>

type_synonym outcome = "abort \<times> state + state"

definition emptyState :: state where
  "emptyState = \<lparr>results = [], requests = []\<rparr>"

definition push :: "ResultType \<Rightarrow> string \<Rightarrow> state \<Rightarrow> state" where
  "push t m st = st\<lparr>results := results st @ [\<lparr>type = t, message = m\<rparr>]\<rparr>"

definition request :: "rpc_request \<Rightarrow> state \<Rightarrow> state" where
  "request r st = st\<lparr>requests := requests st @ [r]\<rparr>"

subsection \<open>Strings\<close>

text \<open>The decimal digits of a number, as a template literal prints it.\<close>

fun showNat :: "nat \<Rightarrow> string" where
  "showNat n =
     (if n < 10 then [char_of (48 + n)]
      else showNat (n div 10) @ [char_of (48 + n mod 10)])"

text \<open>
  \<^verbatim>\<open>Array.prototype.sort\<close> with a comparator is a stable sort: an element goes in front
  of the first one it compares below.
\<close>

fun insertBy :: "('a \<Rightarrow> 'a \<Rightarrow> int) \<Rightarrow> 'a \<Rightarrow> 'a list \<Rightarrow> 'a list" where
  "insertBy cmp x [] = [x]"
| "insertBy cmp x (y # ys) =
     (if cmp x y < 0 then x # y # ys else y # insertBy cmp x ys)"

definition sortBy :: "('a \<Rightarrow> 'a \<Rightarrow> int) \<Rightarrow> 'a list \<Rightarrow> 'a list" where
  "sortBy cmp xs = foldl (\<lambda>acc x. insertBy cmp x acc) [] xs"

subsection \<open>The checks of one token (validate.ts, lines 115 to 208)\<close>

text \<open>The common head of the token messages.\<close>

definition tokenMessage :: "string \<Rightarrow> string \<Rightarrow> Token \<Rightarrow> string \<Rightarrow> string" where
  "tokenMessage folder chain token what =
     folder @ '' on chain '' @ chain @ '' token '' @ address token @ '' '' @ what"

text \<open>\<^verbatim>\<open>token.overrides?.decimals\<close>, and the same for the other two fields.\<close>

definition overridesDecimals :: "Token \<Rightarrow> int option" where
  "overridesDecimals token =
     (case overrides token of None \<Rightarrow> None | Some ov \<Rightarrow> overrides_decimals ov)"

definition overridesSymbol :: "Token \<Rightarrow> string option" where
  "overridesSymbol token =
     (case overrides token of None \<Rightarrow> None | Some ov \<Rightarrow> overrides_symbol ov)"

definition overridesName :: "Token \<Rightarrow> string option" where
  "overridesName token =
     (case overrides token of None \<Rightarrow> None | Some ov \<Rightarrow> overrides_name ov)"

text \<open>
  Lines 115 to 121.  The request is awaited outside every \<^verbatim>\<open>try\<close>: when it rejects,
  the exception leaves \<^verbatim>\<open>validate\<close>.
\<close>

definition checkExists ::
  "env \<Rightarrow> Network \<Rightarrow> string \<Rightarrow> string \<Rightarrow> Token \<Rightarrow> state \<Rightarrow> outcome" where
  "checkExists e networkData folder chain token st =
     (case getCode e networkData (address token) of
        Rejected \<Rightarrow>
          Inl (RpcError networkData (address token),
               request (GetCode networkData (address token)) st)
      | Resolved code \<Rightarrow>
          Inr (if code = ''0x''
               then push Error (tokenMessage folder chain token ''does not exist'')
                      (request (GetCode networkData (address token)) st)
               else request (GetCode networkData (address token)) st))"

text \<open>Lines 123 to 143.\<close>

definition checkDecimals ::
  "env \<Rightarrow> Network \<Rightarrow> string \<Rightarrow> string \<Rightarrow> Token \<Rightarrow> TokenData \<Rightarrow> state \<Rightarrow> state" where
  "checkDecimals e networkData folder chain token data st =
     (if overridesDecimals token = None then
        (case contract_decimals e networkData (address token) of
           Resolved onchain \<Rightarrow>
             (if decimals data \<noteq> onchain
              then push Error (tokenMessage folder chain token ''has incorrect decimals'')
                     (request (CallDecimals networkData (address token)) st)
              else request (CallDecimals networkData (address token)) st)
         | Rejected \<Rightarrow>
             push Error (tokenMessage folder chain token ''failed to get decimals'')
               (request (CallDecimals networkData (address token)) st))
      else push Warning (tokenMessage folder chain token ''has overridden decimals'') st)"

text \<open>
  Lines 145 to 168.  The record is read only when the resolved value differs from the
  declared one (\<^verbatim>\<open>&&\<close>), and inside the \<^verbatim>\<open>try\<close>: on a \<^verbatim>\<open>null\<close> record the TypeError is
  caught and reported as a failed query.
\<close>

definition checkSymbol ::
  "env \<Rightarrow> Network \<Rightarrow> string \<Rightarrow> string \<Rightarrow> Token \<Rightarrow> TokenData \<Rightarrow>
   ExpectedMismatches option \<Rightarrow> state \<Rightarrow> state" where
  "checkSymbol e networkData folder chain token data expectedMismatches st =
     (if overridesSymbol token = None then
        (case contract_symbol e networkData (address token) of
           Resolved onchain \<Rightarrow>
             (if symbol data \<noteq> onchain then
                (case expectedMismatches of
                   None \<Rightarrow>
                     push Error (tokenMessage folder chain token ''failed to get symbol'')
                       (request (CallSymbol networkData (address token)) st)
                 | Some mismatches \<Rightarrow>
                     (if expectedMismatches_symbol mismatches \<noteq> Some (symbol data)
                      then push Error (tokenMessage folder chain token ''has incorrect symbol'')
                             (request (CallSymbol networkData (address token)) st)
                      else request (CallSymbol networkData (address token)) st))
              else request (CallSymbol networkData (address token)) st)
         | Rejected \<Rightarrow>
             push Error (tokenMessage folder chain token ''failed to get symbol'')
               (request (CallSymbol networkData (address token)) st))
      else push Warning (tokenMessage folder chain token ''has overridden symbol'') st)"

text \<open>Lines 170 to 193, the same for the name.\<close>

definition checkName ::
  "env \<Rightarrow> Network \<Rightarrow> string \<Rightarrow> string \<Rightarrow> Token \<Rightarrow> TokenData \<Rightarrow>
   ExpectedMismatches option \<Rightarrow> state \<Rightarrow> state" where
  "checkName e networkData folder chain token data expectedMismatches st =
     (if overridesName token = None then
        (case contract_name e networkData (address token) of
           Resolved onchain \<Rightarrow>
             (if name data \<noteq> onchain then
                (case expectedMismatches of
                   None \<Rightarrow>
                     push Error (tokenMessage folder chain token ''failed to get name'')
                       (request (CallName networkData (address token)) st)
                 | Some mismatches \<Rightarrow>
                     (if expectedMismatches_name mismatches \<noteq> Some (name data)
                      then push Error (tokenMessage folder chain token ''has incorrect name'')
                             (request (CallName networkData (address token)) st)
                      else request (CallName networkData (address token)) st))
              else request (CallName networkData (address token)) st)
         | Rejected \<Rightarrow>
             push Error (tokenMessage folder chain token ''failed to get name'')
               (request (CallName networkData (address token)) st))
      else push Warning (tokenMessage folder chain token ''has overridden name'') st)"

text \<open>Lines 195 to 208; \<open>cg\<close> is \<open>None\<close> when the fetch failed.\<close>

definition checkCoinGecko ::
  "env \<Rightarrow> string list option \<Rightarrow> string \<Rightarrow> string \<Rightarrow> Token \<Rightarrow> state \<Rightarrow> state" where
  "checkCoinGecko e cg folder chain token st =
     (if chain = ''ethereum'' then
        (case cg of
           None \<Rightarrow> st
         | Some cg_tokens \<Rightarrow>
             (case find (\<lambda>t. toLowerCase e t = toLowerCase e (address token)) cg_tokens of
                None \<Rightarrow>
                  push Warning
                    (tokenMessage folder chain token ''not found on CoinGecko token list'') st
              | Some found \<Rightarrow> st))
      else st)"

text \<open>
  The body of the loop over \<^verbatim>\<open>Object.entries(data.tokens)\<close>, lines 105 to 210.  A chain
  that \<^verbatim>\<open>NETWORK_DATA\<close> does not have gives \<^verbatim>\<open>undefined\<close>, and reading
  \<^verbatim>\<open>networkData.provider\<close> throws a TypeError.
\<close>

definition chainVerified :: "string \<Rightarrow> TokenData \<Rightarrow> bool" where
  "chainVerified folder data = (folder \<noteq> ''ETH'' \<and> nonstandard data \<noteq> Some True)"

definition validateToken ::
  "env \<Rightarrow> string list option \<Rightarrow> string \<Rightarrow> TokenData \<Rightarrow> ExpectedMismatches option \<Rightarrow>
   string \<times> Token \<Rightarrow> state \<Rightarrow> outcome" where
  "validateToken e cg folder data expectedMismatches entry st =
     (case entry of (chain, token) \<Rightarrow>
        if chainVerified folder data then
          (case NETWORK_DATA chain of
             None \<Rightarrow> Inl (TypeError chain, st)
           | Some networkData \<Rightarrow>
               (case checkExists e networkData folder chain token st of
                  Inl a \<Rightarrow> Inl a
                | Inr st1 \<Rightarrow>
                    Inr (checkCoinGecko e cg folder chain token
                          (checkName e networkData folder chain token data expectedMismatches
                            (checkSymbol e networkData folder chain token data expectedMismatches
                              (checkDecimals e networkData folder chain token data st1))))))
        else Inr st)"

fun validateTokens ::
  "env \<Rightarrow> string list option \<Rightarrow> string \<Rightarrow> TokenData \<Rightarrow> ExpectedMismatches option \<Rightarrow>
   (string \<times> Token) list \<Rightarrow> state \<Rightarrow> outcome" where
  "validateTokens e cg folder data expectedMismatches [] st = Inr st"
| "validateTokens e cg folder data expectedMismatches (entry # entries) st =
     (case validateToken e cg folder data expectedMismatches entry st of
        Inl a \<Rightarrow> Inl a
      | Inr st' \<Rightarrow> validateTokens e cg folder data expectedMismatches entries st')"

subsection \<open>One folder (validate.ts, lines 56 to 211)\<close>

definition schemaDiagnostic :: "string \<Rightarrow> SchemaError \<Rightarrow> ValidationResult" where
  "schemaDiagnostic folder err =
     \<lparr>type = Error,
      message = folder @ '': '' @ error_property err @ '': '' @ error_message err\<rparr>"

definition logoCheck :: "string \<Rightarrow> nat \<Rightarrow> state \<Rightarrow> state" where
  "logoCheck folder n st =
     (if n \<noteq> 1
      then push Error
             (folder @ '' has '' @ showNat n @
              '' logo files, make sure your logo is either logo.png OR logo.svg'') st
      else st)"

text \<open>
  Lines 89 to 210: the schema validation of the loaded data, then the loop over the
  tokens.  With schema errors the folder is left by \<^verbatim>\<open>continue\<close>.
\<close>

definition validateEntry ::
  "env \<Rightarrow> string list option \<Rightarrow> string \<Rightarrow> TokenData \<Rightarrow> ExpectedMismatches option \<Rightarrow>
   SchemaError list \<Rightarrow> state \<Rightarrow> outcome" where
  "validateEntry e cg folder data expectedMismatches errors st =
     (if errors \<noteq> []
      then Inr (st\<lparr>results := results st @ map (schemaDiagnostic folder) errors\<rparr>)
      else validateTokens e cg folder data expectedMismatches (tokens data) st)"

text \<open>
  Lines 56 to 87.  A missing data file is reported and then read all the same:
  \<^verbatim>\<open>readFileSync\<close> throws.  \<^verbatim>\<open>JSON.parse\<close> throws on either file when it does not parse.
  Without an \<^verbatim>\<open>expectedMismatches.json\<close> the record is \<^verbatim>\<open>{}\<close>.
\<close>

definition noMismatches :: ExpectedMismatches where
  "noMismatches = \<lparr>expectedMismatches_symbol = None, expectedMismatches_name = None\<rparr>"

definition validateFolder ::
  "env \<Rightarrow> string list option \<Rightarrow> string \<Rightarrow> string \<Rightarrow> state \<Rightarrow> outcome" where
  "validateFolder e cg datadir folder st =
     (let datafile = path_join e [datadir, folder, ''data.json'']
      in case data_json (folder_files e datadir folder) of
           Missing \<Rightarrow>
             Inl (ENOENT datafile,
                  push Error (''data file '' @ datafile @ '' does not exist'') st)
         | Malformed \<Rightarrow> Inl (SyntaxError datafile, st)
         | Parsed data \<Rightarrow>
             (let st1 = logoCheck folder (logofiles (folder_files e datadir folder)) st;
                  expectedMismatchesFilePath =
                    path_join e [datadir, folder, ''expectedMismatches.json'']
              in case expectedMismatches_json (folder_files e datadir folder) of
                   Malformed \<Rightarrow> Inl (SyntaxError expectedMismatchesFilePath, st1)
                 | Missing \<Rightarrow>
                     validateEntry e cg folder data (Some noMismatches)
                       (schema_errors (folder_files e datadir folder)) st1
                 | Parsed expectedMismatches \<Rightarrow>
                     validateEntry e cg folder data expectedMismatches
                       (schema_errors (folder_files e datadir folder)) st1))"

fun validateFolders ::
  "env \<Rightarrow> string list option \<Rightarrow> string \<Rightarrow> string list \<Rightarrow> state \<Rightarrow> outcome" where
  "validateFolders e cg datadir [] st = Inr st"
| "validateFolders e cg datadir (folder # folders) st =
     (case validateFolder e cg datadir folder st of
        Inl a \<Rightarrow> Inl a
      | Inr st' \<Rightarrow> validateFolders e cg datadir folders st')"

subsection \<open>The whole run (validate.ts, lines 26 to 230)\<close>

text \<open>
  Lines 30 to 39 on the listing \<^verbatim>\<open>readdirSync\<close> returned: \<open>None\<close> is a \<^verbatim>\<open>tokens\<close>
  argument that is null or undefined.
\<close>

definition selectFolders :: "env \<Rightarrow> string list \<Rightarrow> string list option \<Rightarrow> string list" where
  "selectFolders e listing requested =
     filter (\<lambda>folder. case requested of None \<Rightarrow> True | Some ts \<Rightarrow> folder \<in> set ts)
       (sortBy (\<lambda>a b. localeCompare e (toLowerCase e a) (toLowerCase e b)) listing)"

text \<open>Lines 41 to 54.\<close>

definition fetchCoinGecko :: "env \<Rightarrow> state" where
  "fetchCoinGecko e =
     (case fetch_coingecko e of
        None \<Rightarrow> push Warning ''fetch for CoinGecko token list failed'' emptyState
      | Some cg \<Rightarrow> emptyState)"

text \<open>Lines 213 to 229.\<close>

definition checkFinalList :: "env \<Rightarrow> string \<Rightarrow> state \<Rightarrow> outcome" where
  "checkFinalList e datadir st =
     (case generate_list e datadir of
        GenerateThrows \<Rightarrow> Inl (GenerateError, st)
      | ListValid \<Rightarrow> Inr st
      | ListInvalid errs \<Rightarrow> Inr (push Error (''final token list is invalid: '' @ errs) st))"

text \<open>
  The body of \<^verbatim>\<open>validate\<close>.  \<^verbatim>\<open>readdirSync\<close> is called first and outside any \<^verbatim>\<open>try\<close>:
  when it throws, nothing else happens.
\<close>

definition run :: "env \<Rightarrow> string \<Rightarrow> string list option \<Rightarrow> outcome" where
  "run e datadir requested =
     (case readdirSync e datadir of
        None \<Rightarrow> Inl (ENOENT datadir, emptyState)
      | Some listing \<Rightarrow>
          (case validateFolders e (fetch_coingecko e) datadir
                  (selectFolders e listing requested) (fetchCoinGecko e) of
             Inl a \<Rightarrow> Inl a
           | Inr st \<Rightarrow> checkFinalList e datadir st))"

text \<open>
  What the caller gets of an outcome: the result list, or the exception of a rejected
  promise.
\<close>

definition reportOf :: "outcome \<Rightarrow> abort + ValidationResult list" where
  "reportOf out = (case out of Inl (a, st) \<Rightarrow> Inl a | Inr st \<Rightarrow> Inr (results st))"

definition validate :: "env \<Rightarrow> string \<Rightarrow> string list option \<Rightarrow> abort + ValidationResult list" where
  "validate e datadir requested = reportOf (run e datadir requested)"

text \<open>
  The rest of a run after a folder, and after a token of a folder, started on an empty
  state: the later tokens of the entry, the later folders, and the check of the
  generated list.
\<close>

definition afterFolder :: "env \<Rightarrow> string \<Rightarrow> string list \<Rightarrow> outcome" where
  "afterFolder e datadir folders =
     (case validateFolders e (fetch_coingecko e) datadir folders emptyState of
        Inl a \<Rightarrow> Inl a
      | Inr st \<Rightarrow> checkFinalList e datadir st)"

definition afterToken ::
  "env \<Rightarrow> string \<Rightarrow> string \<Rightarrow> TokenData \<Rightarrow> ExpectedMismatches option \<Rightarrow>
   (string \<times> Token) list \<Rightarrow> string list \<Rightarrow> outcome" where
  "afterToken e datadir folder data expectedMismatches entries folders =
     (case validateTokens e (fetch_coingecko e) folder data expectedMismatches entries
             emptyState of
        Inl a \<Rightarrow> Inl a
      | Inr st \<Rightarrow>
          (case validateFolders e (fetch_coingecko e) datadir folders st of
             Inl a \<Rightarrow> Inl a
           | Inr st' \<Rightarrow> checkFinalList e datadir st'))"

subsection \<open>A small data directory, used to run the definitions\<close>

text \<open>
  One folder \<^verbatim>\<open>FOO\<close> that declares a token on \<^verbatim>\<open>specular\<close> with 18 decimals, symbol
  \<^verbatim>\<open>FOO\<close> and name \<^verbatim>\<open>Foo\<close>, while the chain reports 6 decimals, symbol \<^verbatim>\<open>BAR\<close> and name
  \<^verbatim>\<open>Bar\<close>.  The CoinGecko list is fetched and empty.  Its \<^verbatim>\<open>toLowerCase\<close> folds the
  ASCII letters, which is what the runtime does on ASCII strings.
\<close>

definition asciiLowerChar :: "char \<Rightarrow> char" where
  "asciiLowerChar c =
     (if 65 \<le> (of_char c :: nat) \<and> (of_char c :: nat) \<le> 90
      then char_of ((of_char c :: nat) + 32) else c)"

definition asciiLowerCase :: "string \<Rightarrow> string" where
  "asciiLowerCase s = map asciiLowerChar s"

fun joinPath :: "string list \<Rightarrow> string" where
  "joinPath [] = ''.''"
| "joinPath [a] = a"
| "joinPath (a # b # bs) = a @ ''/'' @ joinPath (b # bs)"

fun compareStrings :: "string \<Rightarrow> string \<Rightarrow> int" where
  "compareStrings [] [] = 0"
| "compareStrings [] (b # bs) = -1"
| "compareStrings (a # as) [] = 1"
| "compareStrings (a # as) (b # bs) =
     (if (of_char a :: nat) < of_char b then -1
      else if (of_char b :: nat) < of_char a then 1
      else compareStrings as bs)"

definition exampleToken :: Token where
  "exampleToken =
     \<lparr>address = ''0xaaaaaaaaaaaaaaaaaaaaaaaaaaaaaaaaaaaaaaaa'', overrides = None\<rparr>"

definition overriddenToken :: Token where
  "overriddenToken =
     \<lparr>address = ''0xaaaaaaaaaaaaaaaaaaaaaaaaaaaaaaaaaaaaaaaa'',
      overrides = Some \<lparr>overrides_name = Some ''Foo'', overrides_symbol = Some ''FOO'',
                        overrides_decimals = Some 18, overrides_bridge = None\<rparr>\<rparr>"

definition exampleData :: TokenData where
  "exampleData =
     \<lparr>name = ''Foo'', symbol = ''FOO'', decimals = 18, nonstandard = None,
      nobridge = None, tokens = [(''specular'', exampleToken)]\<rparr>"

definition exampleFiles :: FolderFiles where
  "exampleFiles =
     \<lparr>data_json = Parsed exampleData, logofiles = 1,
      expectedMismatches_json = Missing, schema_errors = []\<rparr>"

definition exampleEnv :: env where
  "exampleEnv =
     \<lparr>readdirSync = (\<lambda>datadir. Some [''FOO'']),
      toLowerCase = asciiLowerCase,
      localeCompare = compareStrings,
      path_join = joinPath,
      folder_files = (\<lambda>datadir folder. exampleFiles),
      fetch_coingecko = Some [],
      getCode = (\<lambda>network a. Resolved ''0x6080''),
      contract_decimals = (\<lambda>network a. Resolved 6),
      contract_symbol = (\<lambda>network a. Resolved ''BAR''),
      contract_name = (\<lambda>network a. Resolved ''Bar''),
      generate_list = (\<lambda>datadir. ListValid)\<rparr>"

text \<open>
  Two variants: the folder has an \<^verbatim>\<open>expectedMismatches.json\<close> that holds the declared
  symbol and name; and the token overrides the three fields.
\<close>

definition expectedRecord :: ExpectedMismatches where
  "expectedRecord =
     \<lparr>expectedMismatches_symbol = Some ''FOO'', expectedMismatches_name = Some ''Foo''\<rparr>"

definition expectedEnv :: env where
  "expectedEnv =
     exampleEnv\<lparr>folder_files := (\<lambda>datadir folder.
       exampleFiles\<lparr>expectedMismatches_json := Parsed (Some expectedRecord)\<rparr>)\<rparr>"

definition overriddenData :: TokenData where
  "overriddenData = exampleData\<lparr>tokens := [(''specular'', overriddenToken)]\<rparr>"

definition overriddenEnv :: env where
  "overriddenEnv =
     exampleEnv\<lparr>folder_files := (\<lambda>datadir folder.
       exampleFiles\<lparr>data_json := Parsed overriddenData\<rparr>)\<rparr>"

subsection \<open>Diagnostics put in front of a run\<close>

text \<open>
  Every step only appends to the results and to the request log, and reads neither: a
  step started on a state \<open>s\<close> does what it does on the empty state, behind \<open>s\<close>.
\<close>

definition extend :: "state \<Rightarrow> state \<Rightarrow> state" where
  "extend s t = \<lparr>results = results s @ results t, requests = requests s @ requests t\<rparr>"

definition extendOutcome :: "state \<Rightarrow> outcome \<Rightarrow> outcome" where
  "extendOutcome s out = map_sum (map_prod id (extend s)) (extend s) out"

section \<open>Basic facts\<close>

lemma results_push [simp]: "results (push t m st) = results st @ [\<lparr>type = t, message = m\<rparr>]"
  by (simp add: push_def)

lemma requests_push [simp]: "requests (push t m st) = requests st"
  by (simp add: push_def)

lemma results_request [simp]: "results (request r st) = results st"
  by (simp add: request_def)

lemma requests_request [simp]: "requests (request r st) = requests st @ [r]"
  by (simp add: request_def)

lemma results_emptyState [simp]: "results emptyState = []"
  by (simp add: emptyState_def)

lemma requests_emptyState [simp]: "requests emptyState = []"
  by (simp add: emptyState_def)

lemma tokenMessage_inject [simp]:
  "tokenMessage folder chain token a = tokenMessage folder chain token b \<longleftrightarrow> a = b"
  by (simp add: tokenMessage_def)

lemma NETWORK_DATA_specular: "NETWORK_DATA ''specular'' = Some specular_network"
  by (simp add: NETWORK_DATA_def)

lemma NETWORK_DATA_ethereum: "NETWORK_DATA ''ethereum'' = None"
  by (simp add: NETWORK_DATA_def)

lemma NETWORK_DATA_not_ethereum: "NETWORK_DATA chain = Some networkData \<Longrightarrow> chain \<noteq> ''ethereum''"
  by (auto simp: NETWORK_DATA_def split: if_splits)

subsection \<open>Steps only append\<close>

lemma results_extend [simp]: "results (extend s t) = results s @ results t"
  by (simp add: extend_def)

lemma requests_extend [simp]: "requests (extend s t) = requests s @ requests t"
  by (simp add: extend_def)

lemma extend_emptyState [simp]: "extend s emptyState = s"
  by (simp add: extend_def emptyState_def)

lemma extend_assoc: "extend (extend s t) u = extend s (extend t u)"
  by (simp add: extend_def)

lemma extendOutcome_simps [simp]:
  "extendOutcome s (Inl (a, st)) = Inl (a, extend s st)"
  "extendOutcome s (Inr st) = Inr (extend s st)"
  by (simp_all add: extendOutcome_def)

lemma extendOutcome_emptyState [simp]: "extendOutcome emptyState out = out"
proof (cases out)
  case (Inl a)
  then show ?thesis by (cases a) (simp add: extend_def emptyState_def)
next
  case (Inr st)
  then show ?thesis by (simp add: extend_def emptyState_def)
qed

lemma extendOutcome_extend:
  "extendOutcome (extend s t) out = extendOutcome s (extendOutcome t out)"
proof (cases out)
  case (Inl a)
  then show ?thesis by (cases a) (simp add: extend_assoc)
next
  case (Inr st)
  then show ?thesis by (simp add: extend_assoc)
qed

lemma reportOf_extendOutcome:
  "reportOf (extendOutcome s out) = map_sum id ((@) (results s)) (reportOf out)"
proof (cases out)
  case (Inl a)
  then show ?thesis by (cases a) (simp add: reportOf_def)
next
  case (Inr st)
  then show ?thesis by (simp add: reportOf_def)
qed

lemma push_extend: "push t m (extend s u) = extend s (push t m u)"
  by (simp add: push_def extend_def)

lemma request_extend: "request r (extend s u) = extend s (request r u)"
  by (simp add: request_def extend_def)

lemma checkExists_extend:
  "checkExists e nd folder chain token (extend s u) =
   extendOutcome s (checkExists e nd folder chain token u)"
  by (simp add: checkExists_def push_extend request_extend split: promise.split)

lemma checkDecimals_extend:
  "checkDecimals e nd folder chain token data (extend s u) =
   extend s (checkDecimals e nd folder chain token data u)"
  by (simp add: checkDecimals_def push_extend request_extend split: promise.split)

lemma checkSymbol_extend:
  "checkSymbol e nd folder chain token data em (extend s u) =
   extend s (checkSymbol e nd folder chain token data em u)"
  by (simp add: checkSymbol_def push_extend request_extend split: promise.split option.split)

lemma checkName_extend:
  "checkName e nd folder chain token data em (extend s u) =
   extend s (checkName e nd folder chain token data em u)"
  by (simp add: checkName_def push_extend request_extend split: promise.split option.split)

lemma checkCoinGecko_extend:
  "checkCoinGecko e cg folder chain token (extend s u) =
   extend s (checkCoinGecko e cg folder chain token u)"
  by (simp add: checkCoinGecko_def push_extend split: option.split)

lemma validateToken_extend:
  "validateToken e cg folder data em entry (extend s u) =
   extendOutcome s (validateToken e cg folder data em entry u)"
proof (cases entry)
  case (Pair chain token)
  show ?thesis
  proof (cases "chainVerified folder data")
    case False
    with Pair show ?thesis by (simp add: validateToken_def)
  next
    case True
    show ?thesis
    proof (cases "NETWORK_DATA chain")
      case None
      with Pair True show ?thesis by (simp add: validateToken_def)
    next
      case (Some nd)
      show ?thesis
      proof (cases "checkExists e nd folder chain token u")
        case (Inl a)
        then show ?thesis using Pair True Some
          by (cases a) (simp add: validateToken_def checkExists_extend)
      next
        case (Inr st1)
        then show ?thesis using Pair True Some
          by (simp add: validateToken_def checkExists_extend checkDecimals_extend
              checkSymbol_extend checkName_extend checkCoinGecko_extend)
      qed
    qed
  qed
qed

lemma validateTokens_extend:
  "validateTokens e cg folder data em entries (extend s u) =
   extendOutcome s (validateTokens e cg folder data em entries u)"
proof (induction entries arbitrary: u)
  case Nil
  show ?case by simp
next
  case (Cons entry entries)
  show ?case
  proof (cases "validateToken e cg folder data em entry u")
    case (Inl a)
    then show ?thesis by (cases a) (simp add: validateToken_extend)
  next
    case (Inr st')
    then show ?thesis by (simp add: validateToken_extend Cons.IH)
  qed
qed

lemma schema_extend:
  "(extend s u)\<lparr>results := results (extend s u) @ ds\<rparr> =
   extend s (u\<lparr>results := results u @ ds\<rparr>)"
  by (simp add: extend_def)

lemma validateEntry_extend:
  "validateEntry e cg folder data em errs (extend s u) =
   extendOutcome s (validateEntry e cg folder data em errs u)"
  by (simp add: validateEntry_def validateTokens_extend schema_extend)

lemma logoCheck_extend:
  "logoCheck folder n (extend s u) = extend s (logoCheck folder n u)"
  by (simp add: logoCheck_def push_extend)

lemma validateFolder_extend:
  "validateFolder e cg datadir folder (extend s u) =
   extendOutcome s (validateFolder e cg datadir folder u)"
  by (simp add: validateFolder_def Let_def push_extend logoCheck_extend
      validateEntry_extend split: json_file.split)

lemma validateFolders_extend:
  "validateFolders e cg datadir folders (extend s u) =
   extendOutcome s (validateFolders e cg datadir folders u)"
proof (induction folders arbitrary: u)
  case Nil
  show ?case by simp
next
  case (Cons folder folders)
  show ?case
  proof (cases "validateFolder e cg datadir folder u")
    case (Inl a)
    then show ?thesis by (cases a) (simp add: validateFolder_extend)
  next
    case (Inr st')
    then show ?thesis by (simp add: validateFolder_extend Cons.IH)
  qed
qed

lemma checkFinalList_extend:
  "checkFinalList e datadir (extend s u) = extendOutcome s (checkFinalList e datadir u)"
  by (simp add: checkFinalList_def push_extend split: final_list.split)

text \<open>The same facts, read from the empty state.\<close>

lemma checkDecimals_from_empty:
  "checkDecimals e nd folder chain token data s =
   extend s (checkDecimals e nd folder chain token data emptyState)"
  using checkDecimals_extend [of e nd folder chain token data s emptyState] by simp

lemma checkSymbol_from_empty:
  "checkSymbol e nd folder chain token data em s =
   extend s (checkSymbol e nd folder chain token data em emptyState)"
  using checkSymbol_extend [of e nd folder chain token data em s emptyState] by simp

lemma checkName_from_empty:
  "checkName e nd folder chain token data em s =
   extend s (checkName e nd folder chain token data em emptyState)"
  using checkName_extend [of e nd folder chain token data em s emptyState] by simp

lemma validateTokens_from_empty:
  "validateTokens e cg folder data em entries s =
   extendOutcome s (validateTokens e cg folder data em entries emptyState)"
  using validateTokens_extend [of e cg folder data em entries s emptyState] by simp

lemma validateFolders_from_empty:
  "validateFolders e cg datadir folders s =
   extendOutcome s (validateFolders e cg datadir folders emptyState)"
  using validateFolders_extend [of e cg datadir folders s emptyState] by simp

subsection \<open>The loops, cut at a position\<close>

lemma validateTokens_append:
  "validateTokens e cg folder data em (xs @ ys) st =
   (case validateTokens e cg folder data em xs st of
      Inl a \<Rightarrow> Inl a
    | Inr s \<Rightarrow> validateTokens e cg folder data em ys s)"
  by (induction xs arbitrary: st) (simp_all split: sum.split)

lemma validateFolders_append:
  "validateFolders e cg datadir (xs @ ys) st =
   (case validateFolders e cg datadir xs st of
      Inl a \<Rightarrow> Inl a
    | Inr s \<Rightarrow> validateFolders e cg datadir ys s)"
  by (induction xs arbitrary: st) (simp_all split: sum.split)

lemma rest_after_folder:
  "(case validateFolders e (fetch_coingecko e) datadir folders s of
      Inl a \<Rightarrow> Inl a
    | Inr st \<Rightarrow> checkFinalList e datadir st) =
   extendOutcome s (afterFolder e datadir folders)"
proof (cases "validateFolders e (fetch_coingecko e) datadir folders emptyState")
  case (Inl a)
  then show ?thesis
    using validateFolders_from_empty [where e = e and cg = "fetch_coingecko e" and datadir = datadir
        and folders = folders and s = s]
    by (cases a) (simp add: afterFolder_def)
next
  case (Inr st)
  then show ?thesis
    using validateFolders_from_empty [where e = e and cg = "fetch_coingecko e" and datadir = datadir
        and folders = folders and s = s]
      checkFinalList_extend [where e = e and datadir = datadir and s = s and u = st]
    by (simp add: afterFolder_def)
qed

lemma rest_after_token:
  "(case validateTokens e (fetch_coingecko e) folder data em entries s of
      Inl a \<Rightarrow> Inl a
    | Inr st \<Rightarrow>
        (case validateFolders e (fetch_coingecko e) datadir folders st of
           Inl a \<Rightarrow> Inl a
         | Inr st' \<Rightarrow> checkFinalList e datadir st')) =
   extendOutcome s (afterToken e datadir folder data em entries folders)"
proof (cases "validateTokens e (fetch_coingecko e) folder data em entries emptyState")
  case (Inl a)
  then show ?thesis
    using validateTokens_from_empty [where e = e and cg = "fetch_coingecko e" and folder = folder
        and data = data and em = em and entries = entries and s = s]
    by (cases a) (simp add: afterToken_def)
next
  case (Inr st)
  have "(case validateFolders e (fetch_coingecko e) datadir folders (extend s st) of
          Inl a \<Rightarrow> Inl a
        | Inr st' \<Rightarrow> checkFinalList e datadir st') =
        extendOutcome s
          (case validateFolders e (fetch_coingecko e) datadir folders st of
             Inl a \<Rightarrow> Inl a
           | Inr st' \<Rightarrow> checkFinalList e datadir st')"
    by (simp add: rest_after_folder extendOutcome_extend)
  with Inr show ?thesis
    using validateTokens_from_empty [where e = e and cg = "fetch_coingecko e" and folder = folder
        and data = data and em = em and entries = entries and s = s]
    by (simp add: afterToken_def)
qed


text \<open>The same for a token of a loaded entry that passed the schema.\<close>

lemma run_at_token:
  assumes "readdirSync e datadir = Some listing"
    and "selectFolders e listing requested = fs1 @ folder # fs2"
    and "validateFolders e (fetch_coingecko e) datadir fs1 (fetchCoinGecko e) = Inr s1"
    and "data_json (folder_files e datadir folder) = Parsed data"
    and "expectedMismatches_json (folder_files e datadir folder) = Missing \<and>
           em = Some noMismatches \<or>
         expectedMismatches_json (folder_files e datadir folder) = Parsed em"
    and "schema_errors (folder_files e datadir folder) = []"
    and "tokens data = ts1 @ entry # ts2"
    and "validateTokens e (fetch_coingecko e) folder data em ts1
           (logoCheck folder (logofiles (folder_files e datadir folder)) s1) = Inr s2"
  shows "run e datadir requested =
           (case validateToken e (fetch_coingecko e) folder data em entry s2 of
              Inl a \<Rightarrow> Inl a
            | Inr s \<Rightarrow> extendOutcome s (afterToken e datadir folder data em ts2 fs2))"
proof -
  have folder: "validateFolder e (fetch_coingecko e) datadir folder s1 =
      validateTokens e (fetch_coingecko e) folder data em (ts1 @ entry # ts2)
        (logoCheck folder (logofiles (folder_files e datadir folder)) s1)"
    using assms(4-7) by (auto simp: validateFolder_def validateEntry_def Let_def)
  have "run e datadir requested =
      (case validateTokens e (fetch_coingecko e) folder data em (ts1 @ entry # ts2)
              (logoCheck folder (logofiles (folder_files e datadir folder)) s1) of
         Inl a \<Rightarrow> Inl a
       | Inr st \<Rightarrow>
           (case validateFolders e (fetch_coingecko e) datadir fs2 st of
              Inl a \<Rightarrow> Inl a
            | Inr st' \<Rightarrow> checkFinalList e datadir st'))"
    using assms(1-3)
    by (simp add: run_def validateFolders_append folder split: sum.split)
  also have "\<dots> =
      (case validateToken e (fetch_coingecko e) folder data em entry s2 of
         Inl a \<Rightarrow> Inl a
       | Inr s \<Rightarrow> extendOutcome s (afterToken e datadir folder data em ts2 fs2))"
    using assms(8) rest_after_token [where e = e and folder = folder and data = data and em = em
        and entries = ts2 and datadir = datadir and folders = fs2]
    by (simp add: validateTokens_append split: sum.split)
  finally show ?thesis .
qed

text \<open>
  A chain-verified token on a chain of \<^verbatim>\<open>NETWORK_DATA\<close> whose existence check returns
  runs the three field checks; the CoinGecko check does nothing, as no chain of
  \<^verbatim>\<open>NETWORK_DATA\<close> is \<^verbatim>\<open>ethereum\<close>.
\<close>

lemma checkCoinGecko_registered:
  "NETWORK_DATA chain = Some nd \<Longrightarrow> checkCoinGecko e cg folder chain token st = st"
  by (auto simp: checkCoinGecko_def dest: NETWORK_DATA_not_ethereum split: option.split)

lemma validateToken_verified:
  assumes "chainVerified folder data" and "NETWORK_DATA chain = Some nd"
    and "checkExists e nd folder chain token st = Inr s3"
  shows "validateToken e cg folder data em (chain, token) st =
           Inr (checkName e nd folder chain token data em
                 (checkSymbol e nd folder chain token data em
                   (checkDecimals e nd folder chain token data s3)))"
  using assms by (simp add: validateToken_def checkCoinGecko_registered)

lemma validateToken_skipped:
  "\<not> chainVerified folder data \<Longrightarrow> validateToken e cg folder data em entry st = Inr st"
  by (cases entry) (simp add: validateToken_def)

lemma run_at_verified_token:
  assumes "readdirSync e datadir = Some listing"
    and "selectFolders e listing requested = fs1 @ folder # fs2"
    and "validateFolders e (fetch_coingecko e) datadir fs1 (fetchCoinGecko e) = Inr s1"
    and "data_json (folder_files e datadir folder) = Parsed data"
    and "expectedMismatches_json (folder_files e datadir folder) = Missing \<and>
           em = Some noMismatches \<or>
         expectedMismatches_json (folder_files e datadir folder) = Parsed em"
    and "schema_errors (folder_files e datadir folder) = []"
    and "tokens data = ts1 @ (chain, token) # ts2"
    and "validateTokens e (fetch_coingecko e) folder data em ts1
           (logoCheck folder (logofiles (folder_files e datadir folder)) s1) = Inr s2"
    and "chainVerified folder data"
    and "NETWORK_DATA chain = Some nd"
    and "checkExists e nd folder chain token s2 = Inr s3"
  shows "run e datadir requested =
           extendOutcome
             (checkName e nd folder chain token data em
               (checkSymbol e nd folder chain token data em
                 (checkDecimals e nd folder chain token data s3)))
             (afterToken e datadir folder data em ts2 fs2)"
  using run_at_token [OF assms(1-8)] validateToken_verified [OF assms(9-11)]
  by simp

subsection \<open>A run does not depend on the fetched list\<close>

text \<open>
  The CoinGecko check does nothing on a token that passed the lookup in \<^verbatim>\<open>NETWORK_DATA\<close>,
  so the loops give the same outcome for every fetched list and for a failed fetch.
\<close>

lemma validateToken_cg:
  "validateToken e cg folder data em entry st = validateToken e cg' folder data em entry st"
  by (cases entry)
     (simp add: validateToken_def checkCoinGecko_registered split: option.split sum.split)

lemma validateTokens_cg:
  "validateTokens e cg folder data em entries st =
   validateTokens e cg' folder data em entries st"
proof (induction entries arbitrary: st)
  case Nil
  show ?case by simp
next
  case (Cons entry entries)
  show ?case
    using validateToken_cg [of e cg folder data em entry st cg'] Cons.IH
    by (simp split: sum.split)
qed

lemma validateFolder_cg:
  "validateFolder e cg datadir folder st = validateFolder e cg' datadir folder st"
  using validateTokens_cg [of e cg folder _ _ _ _ cg']
  by (simp add: validateFolder_def validateEntry_def Let_def split: json_file.split)

lemma validateFolders_cg:
  "validateFolders e cg datadir folders st = validateFolders e cg' datadir folders st"
proof (induction folders arbitrary: st)
  case Nil
  show ?case by simp
next
  case (Cons folder folders)
  show ?case
    using validateFolder_cg [of e cg datadir folder st cg'] Cons.IH
    by (simp split: sum.split)
qed

text \<open>The steps read the fetched list from their argument, not from the environment.\<close>

lemma checkExists_env:
  "checkExists (e\<lparr>fetch_coingecko := x\<rparr>) nd folder chain token st =
   checkExists e nd folder chain token st"
  by (simp add: checkExists_def)

lemma checkDecimals_env:
  "checkDecimals (e\<lparr>fetch_coingecko := x\<rparr>) nd folder chain token data st =
   checkDecimals e nd folder chain token data st"
  by (simp add: checkDecimals_def)

lemma checkSymbol_env:
  "checkSymbol (e\<lparr>fetch_coingecko := x\<rparr>) nd folder chain token data em st =
   checkSymbol e nd folder chain token data em st"
  by (simp add: checkSymbol_def)

lemma checkName_env:
  "checkName (e\<lparr>fetch_coingecko := x\<rparr>) nd folder chain token data em st =
   checkName e nd folder chain token data em st"
  by (simp add: checkName_def)

lemma checkCoinGecko_env:
  "checkCoinGecko (e\<lparr>fetch_coingecko := x\<rparr>) cg folder chain token st =
   checkCoinGecko e cg folder chain token st"
  by (simp add: checkCoinGecko_def split: option.split)

lemma validateToken_env:
  "validateToken (e\<lparr>fetch_coingecko := x\<rparr>) cg folder data em entry st =
   validateToken e cg folder data em entry st"
  by (simp add: validateToken_def checkExists_env checkDecimals_env checkSymbol_env
      checkName_env checkCoinGecko_env split: prod.split option.split sum.split)

lemma validateTokens_env:
  "validateTokens (e\<lparr>fetch_coingecko := x\<rparr>) cg folder data em entries st =
   validateTokens e cg folder data em entries st"
  by (induction entries arbitrary: st) (simp_all add: validateToken_env split: sum.split)

lemma validateFolder_env:
  "validateFolder (e\<lparr>fetch_coingecko := x\<rparr>) cg datadir folder st =
   validateFolder e cg datadir folder st"
  by (simp add: validateFolder_def validateEntry_def validateTokens_env Let_def
      split: json_file.split)

lemma validateFolders_env:
  "validateFolders (e\<lparr>fetch_coingecko := x\<rparr>) cg datadir folders st =
   validateFolders e cg datadir folders st"
  by (induction folders arbitrary: st) (simp_all add: validateFolder_env split: sum.split)

subsection \<open>The selection of folders\<close>

lemma set_insertBy: "set (insertBy cmp x ys) = insert x (set ys)"
  by (induction ys) auto

lemma set_sortBy: "set (sortBy cmp xs) = set xs"
proof -
  have "set (foldl (\<lambda>acc x. insertBy cmp x acc) acc xs) = set acc \<union> set xs" for acc
    by (induction xs arbitrary: acc) (auto simp: set_insertBy)
  then show ?thesis by (simp add: sortBy_def)
qed

subsection \<open>Evaluating the example\<close>

lemma asciiLowerCase_address:
  "asciiLowerCase ''0xaaaaaaaaaaaaaaaaaaaaaaaaaaaaaaaaaaaaaaaa'' =
     ''0xaaaaaaaaaaaaaaaaaaaaaaaaaaaaaaaaaaaaaaaa''"
  "asciiLowerCase ''0xAAAAAAAAAAAAAAAAAAAAAAAAAAAAAAAAAAAAAAAA'' =
     ''0xaaaaaaaaaaaaaaaaaaaaaaaaaaaaaaaaaaaaaaaa''"
  "asciiLowerCase ''0xBBBB'' = ''0xbbbb''"
  "asciiLowerCase ''FOO'' = ''foo''"
  "asciiLowerCase ''BAR'' = ''bar''"
  by (simp_all add: asciiLowerCase_def asciiLowerChar_def char_of_def bit_Suc_0_iff)

lemma example_selection:
  "selectFolders (exampleEnv\<lparr>folder_files := ff\<rparr>) [''FOO''] None = [''FOO'']"
  "selectFolders exampleEnv [''FOO''] None = [''FOO'']"
  "selectFolders (exampleEnv\<lparr>fetch_coingecko := cg\<rparr>) [''FOO''] None = [''FOO'']"
  by (simp_all add: selectFolders_def sortBy_def)

lemma example_start:
  "fetchCoinGecko (exampleEnv\<lparr>folder_files := ff\<rparr>) = emptyState"
  "fetchCoinGecko exampleEnv = emptyState"
  by (simp_all add: fetchCoinGecko_def exampleEnv_def)

section \<open>Exceptions that end the run\<close>

text \<open>
  Claim C5 does not hold of the code.  Two runs over a directory with the folders
  \<^verbatim>\<open>BAR\<close> and \<^verbatim>\<open>FOO\<close>: in the first \<^verbatim>\<open>BAR\<close> has no \<^verbatim>\<open>data.json\<close>; the error is pushed,
  then \<^verbatim>\<open>readFileSync\<close> throws, and the caller gets the exception and no report (nothing
  about \<^verbatim>\<open>FOO\<close> either).  In the second the files are fine and \<^verbatim>\<open>getCode\<close> rejects: the
  request is awaited outside every \<^verbatim>\<open>try\<close>, and the run ends there too.
\<close>

theorem validate_aborts_on_missing_file_and_rejected_getCode:
  "run (exampleEnv\<lparr>readdirSync := (\<lambda>datadir. Some [''BAR'', ''FOO'']),
                     folder_files := (\<lambda>datadir folder.
                       if folder = ''BAR'' then exampleFiles\<lparr>data_json := Missing\<rparr>
                       else exampleFiles)\<rparr>) ''data'' None =
     Inl (ENOENT ''data/BAR/data.json'',
          \<lparr>results = [\<lparr>type = Error, message = ''data file data/BAR/data.json does not exist''\<rparr>],
           requests = []\<rparr>) \<and>
   validate (exampleEnv\<lparr>readdirSync := (\<lambda>datadir. Some [''BAR'', ''FOO'']),
                     folder_files := (\<lambda>datadir folder.
                       if folder = ''BAR'' then exampleFiles\<lparr>data_json := Missing\<rparr>
                       else exampleFiles)\<rparr>) ''data'' None =
     Inl (ENOENT ''data/BAR/data.json'') \<and>
   validate (exampleEnv\<lparr>readdirSync := (\<lambda>datadir. Some [''BAR'', ''FOO'']),
                     getCode := (\<lambda>network a. Rejected)\<rparr>) ''data'' None =
     Inl (RpcError specular_network ''0xaaaaaaaaaaaaaaaaaaaaaaaaaaaaaaaaaaaaaaaa'')"
proof -
  have sel: "selectFolders (exampleEnv\<lparr>readdirSync := rd, folder_files := ff\<rparr>)
      [''BAR'', ''FOO''] None = [''BAR'', ''FOO'']" for rd ff
    by (simp add: selectFolders_def sortBy_def exampleEnv_def asciiLowerCase_address)
  have sel': "selectFolders (exampleEnv\<lparr>readdirSync := rd, getCode := gc\<rparr>)
      [''BAR'', ''FOO''] None = [''BAR'', ''FOO'']" for rd gc
    by (simp add: selectFolders_def sortBy_def exampleEnv_def asciiLowerCase_address)
  have missing: "run (exampleEnv\<lparr>readdirSync := (\<lambda>datadir. Some [''BAR'', ''FOO'']),
                     folder_files := (\<lambda>datadir folder.
                       if folder = ''BAR'' then exampleFiles\<lparr>data_json := Missing\<rparr>
                       else exampleFiles)\<rparr>) ''data'' None =
     Inl (ENOENT ''data/BAR/data.json'',
          \<lparr>results = [\<lparr>type = Error, message = ''data file data/BAR/data.json does not exist''\<rparr>],
           requests = []\<rparr>)"
    by (simp add: run_def sel validateFolder_def fetchCoinGecko_def push_def emptyState_def)
       (simp add: exampleEnv_def)
  have rejected: "run (exampleEnv\<lparr>readdirSync := (\<lambda>datadir. Some [''BAR'', ''FOO'']),
                     getCode := (\<lambda>network a. Rejected)\<rparr>) ''data'' None =
     Inl (RpcError specular_network ''0xaaaaaaaaaaaaaaaaaaaaaaaaaaaaaaaaaaaaaaaa'',
          \<lparr>results = [],
           requests = [GetCode specular_network ''0xaaaaaaaaaaaaaaaaaaaaaaaaaaaaaaaaaaaaaaaa'']\<rparr>)"
    apply (simp add: run_def sel' validateFolder_def fetchCoinGecko_def)
    apply (simp add: exampleEnv_def exampleFiles_def logoCheck_def validateEntry_def
        exampleData_def)
    apply (simp add: validateToken_def chainVerified_def NETWORK_DATA_def checkExists_def
        exampleToken_def request_def emptyState_def)
    done
  show ?thesis
    by (simp add: validate_def reportOf_def missing rejected)
qed

subsection \<open>The report of a run, cut at a checked token\<close>

text \<open>
  When the run gets to a chain-verified token of a loaded entry and the existence check
  of that token returns, \<^verbatim>\<open>validate\<close> ends as the rest of the run does, with the
  diagnostics pushed up to the end of that token's checks in front.
\<close>

lemma validate_at_verified_token:
  assumes "readdirSync e datadir = Some listing"
    and "selectFolders e listing requested = fs1 @ folder # fs2"
    and "validateFolders e (fetch_coingecko e) datadir fs1 (fetchCoinGecko e) = Inr s1"
    and "data_json (folder_files e datadir folder) = Parsed data"
    and "expectedMismatches_json (folder_files e datadir folder) = Missing \<and>
           em = Some noMismatches \<or>
         expectedMismatches_json (folder_files e datadir folder) = Parsed em"
    and "schema_errors (folder_files e datadir folder) = []"
    and "tokens data = ts1 @ (chain, token) # ts2"
    and "validateTokens e (fetch_coingecko e) folder data em ts1
           (logoCheck folder (logofiles (folder_files e datadir folder)) s1) = Inr s2"
    and "chainVerified folder data"
    and "NETWORK_DATA chain = Some nd"
    and "checkExists e nd folder chain token s2 = Inr s3"
  shows "validate e datadir requested =
           map_sum id
             ((@) (results (checkName e nd folder chain token data em
                     (checkSymbol e nd folder chain token data em
                       (checkDecimals e nd folder chain token data s3)))))
             (reportOf (afterToken e datadir folder data em ts2 fs2))"
  by (simp add: validate_def run_at_verified_token [OF assms] reportOf_extendOutcome)

lemma example_position:
  "readdirSync exampleEnv ''data'' = Some [''FOO'']"
  "selectFolders exampleEnv [''FOO''] None = [] @ ''FOO'' # []"
  "validateFolders exampleEnv (fetch_coingecko exampleEnv) ''data'' [] (fetchCoinGecko exampleEnv) =
     Inr emptyState"
  "data_json (folder_files exampleEnv ''data'' ''FOO'') = Parsed exampleData"
  "expectedMismatches_json (folder_files exampleEnv ''data'' ''FOO'') = Missing \<and>
     Some noMismatches = Some noMismatches \<or>
   expectedMismatches_json (folder_files exampleEnv ''data'' ''FOO'') = Parsed (Some noMismatches)"
  "schema_errors (folder_files exampleEnv ''data'' ''FOO'') = []"
  "tokens exampleData = [] @ (''specular'', exampleToken) # []"
  "validateTokens exampleEnv (fetch_coingecko exampleEnv) ''FOO'' exampleData (Some noMismatches) []
     (logoCheck ''FOO'' (logofiles (folder_files exampleEnv ''data'' ''FOO'')) emptyState) =
     Inr emptyState"
  "chainVerified ''FOO'' exampleData"
  "NETWORK_DATA ''specular'' = Some specular_network"
  "checkExists exampleEnv specular_network ''FOO'' ''specular'' exampleToken emptyState =
     Inr (request (GetCode specular_network (address exampleToken)) emptyState)"
  by (simp_all add: example_selection example_start NETWORK_DATA_specular)
     (simp_all add: exampleEnv_def exampleFiles_def exampleData_def
      logoCheck_def chainVerified_def checkExists_def)

lemma expected_position:
  "readdirSync expectedEnv ''data'' = Some [''FOO'']"
  "selectFolders expectedEnv [''FOO''] None = [] @ ''FOO'' # []"
  "validateFolders expectedEnv (fetch_coingecko expectedEnv) ''data'' [] (fetchCoinGecko expectedEnv) =
     Inr emptyState"
  "data_json (folder_files expectedEnv ''data'' ''FOO'') = Parsed exampleData"
  "expectedMismatches_json (folder_files expectedEnv ''data'' ''FOO'') = Missing \<and>
     Some expectedRecord = Some noMismatches \<or>
   expectedMismatches_json (folder_files expectedEnv ''data'' ''FOO'') = Parsed (Some expectedRecord)"
  "schema_errors (folder_files expectedEnv ''data'' ''FOO'') = []"
  "tokens exampleData = [] @ (''specular'', exampleToken) # []"
  "validateTokens expectedEnv (fetch_coingecko expectedEnv) ''FOO'' exampleData (Some expectedRecord) []
     (logoCheck ''FOO'' (logofiles (folder_files expectedEnv ''data'' ''FOO'')) emptyState) =
     Inr emptyState"
  "chainVerified ''FOO'' exampleData"
  "NETWORK_DATA ''specular'' = Some specular_network"
  "checkExists expectedEnv specular_network ''FOO'' ''specular'' exampleToken emptyState =
     Inr (request (GetCode specular_network (address exampleToken)) emptyState)"
  by (simp_all add: expectedEnv_def example_selection example_start NETWORK_DATA_specular)
     (simp_all add: exampleEnv_def exampleFiles_def exampleData_def
      logoCheck_def chainVerified_def checkExists_def)


lemma noMismatches_fields [simp]:
  "expectedMismatches_symbol noMismatches = None"
  "expectedMismatches_name noMismatches = None"
  by (simp_all add: noMismatches_def)

lemma expectedRecord_fields [simp]:
  "expectedMismatches_symbol expectedRecord = Some ''FOO''"
  "expectedMismatches_name expectedRecord = Some ''Foo''"
  by (simp_all add: expectedRecord_def)

lemma example_rest:
  "reportOf (afterToken exampleEnv ''data'' ''FOO'' data em [] []) = Inr []"
  "reportOf (afterToken expectedEnv ''data'' ''FOO'' data em [] []) = Inr []"
  "reportOf (afterToken overriddenEnv ''data'' ''FOO'' data em [] []) = Inr []"
  "afterToken overriddenEnv ''data'' ''FOO'' data em [] [] = Inr emptyState"
  by (simp_all add: afterToken_def checkFinalList_def reportOf_def exampleEnv_def
      expectedEnv_def overriddenEnv_def)

lemma example_messages:
  "tokenMessage ''FOO'' ''specular'' exampleToken what =
     ''FOO on chain specular token 0xaaaaaaaaaaaaaaaaaaaaaaaaaaaaaaaaaaaaaaaa '' @ what"
  "tokenMessage ''FOO'' ''specular'' overriddenToken what =
     ''FOO on chain specular token 0xaaaaaaaaaaaaaaaaaaaaaaaaaaaaaaaaaaaaaaaa '' @ what"
  by (simp_all add: tokenMessage_def exampleToken_def overriddenToken_def)

section \<open>The field checks of a chain-verified token\<close>

text \<open>
  The theorems of this section are about a declared pair \<open>(chain, token)\<close> of a loaded
  entry at the place where the run checks it: the folder \<open>folder\<close> of the selection,
  after the folders \<open>fs1\<close> have been gone through and ended in \<open>s1\<close>; its data file
  parsed to \<open>data\<close> and passed the schema, its record is \<open>em\<close>; the pair comes after the
  pairs \<open>ts1\<close>, which ended in \<open>s2\<close>; the entry is chain-verified, the chain is in
  \<^verbatim>\<open>NETWORK_DATA\<close> and the existence check returned \<open>s3\<close>.  These hypotheses say that the
  queries of the pair are made; where one of them fails, the run ended before.  The
  conclusions give what \<^verbatim>\<open>validate\<close> returns: the exception of a later step if there is
  one, and else the report, with the diagnostics of the check at their place.
\<close>

text \<open>
  Claim C1.  For a chain-verified pair whose symbol (resp. name) has no override, when the
  query resolves to a value that differs from the declared one, the report holds at the
  place of that check exactly one error, unless the expected-mismatches record holds
  exactly the declared value for that field: then it holds nothing at all there.  (The
  error is "has incorrect symbol"; on a \<^verbatim>\<open>null\<close> record it is "failed to get symbol".)
\<close>

theorem symbol_name_mismatch_error_unless_expected:
  assumes "readdirSync e datadir = Some listing"
    and "selectFolders e listing requested = fs1 @ folder # fs2"
    and "validateFolders e (fetch_coingecko e) datadir fs1 (fetchCoinGecko e) = Inr s1"
    and "data_json (folder_files e datadir folder) = Parsed data"
    and "expectedMismatches_json (folder_files e datadir folder) = Missing \<and>
           em = Some noMismatches \<or>
         expectedMismatches_json (folder_files e datadir folder) = Parsed em"
    and "schema_errors (folder_files e datadir folder) = []"
    and "tokens data = ts1 @ (chain, token) # ts2"
    and "validateTokens e (fetch_coingecko e) folder data em ts1
           (logoCheck folder (logofiles (folder_files e datadir folder)) s1) = Inr s2"
    and "chainVerified folder data"
    and "NETWORK_DATA chain = Some nd"
    and "checkExists e nd folder chain token s2 = Inr s3"
  shows
    "(overridesSymbol token = None \<and>
      contract_symbol e nd (address token) = Resolved onchain \<and>
      onchain \<noteq> symbol data \<longrightarrow>
      validate e datadir requested =
        map_sum id
          (\<lambda>later.
             results (checkDecimals e nd folder chain token data s3) @
             (case em of
                None \<Rightarrow>
                  [\<lparr>type = Error,
                    message = tokenMessage folder chain token ''failed to get symbol''\<rparr>]
              | Some mismatches \<Rightarrow>
                  if expectedMismatches_symbol mismatches = Some (symbol data) then []
                  else [\<lparr>type = Error,
                         message = tokenMessage folder chain token ''has incorrect symbol''\<rparr>]) @
             results (checkName e nd folder chain token data em emptyState) @ later)
          (reportOf (afterToken e datadir folder data em ts2 fs2))) \<and>
     (overridesName token = None \<and>
      contract_name e nd (address token) = Resolved onchain' \<and>
      onchain' \<noteq> name data \<longrightarrow>
      validate e datadir requested =
        map_sum id
          (\<lambda>later.
             results (checkSymbol e nd folder chain token data em
                        (checkDecimals e nd folder chain token data s3)) @
             (case em of
                None \<Rightarrow>
                  [\<lparr>type = Error,
                    message = tokenMessage folder chain token ''failed to get name''\<rparr>]
              | Some mismatches \<Rightarrow>
                  if expectedMismatches_name mismatches = Some (name data) then []
                  else [\<lparr>type = Error,
                         message = tokenMessage folder chain token ''has incorrect name''\<rparr>]) @
             later)
          (reportOf (afterToken e datadir folder data em ts2 fs2)))"
proof -
  note report = validate_at_verified_token [OF assms]
  have name_after: "results (checkName e nd folder chain token data em s) =
      results s @ results (checkName e nd folder chain token data em emptyState)" for s
    using checkName_from_empty [of e nd folder chain token data em s] by simp
  have symbol_part:
    "overridesSymbol token = None \<Longrightarrow>
     contract_symbol e nd (address token) = Resolved onchain \<Longrightarrow> onchain \<noteq> symbol data \<Longrightarrow>
     results (checkSymbol e nd folder chain token data em s) =
       results s @
       (case em of
          None \<Rightarrow>
            [\<lparr>type = Error, message = tokenMessage folder chain token ''failed to get symbol''\<rparr>]
        | Some mismatches \<Rightarrow>
            if expectedMismatches_symbol mismatches = Some (symbol data) then []
            else [\<lparr>type = Error,
                   message = tokenMessage folder chain token ''has incorrect symbol''\<rparr>])" for s
    by (auto simp: checkSymbol_def split: option.split)
  have name_part:
    "overridesName token = None \<Longrightarrow>
     contract_name e nd (address token) = Resolved onchain' \<Longrightarrow> onchain' \<noteq> name data \<Longrightarrow>
     results (checkName e nd folder chain token data em s) =
       results s @
       (case em of
          None \<Rightarrow>
            [\<lparr>type = Error, message = tokenMessage folder chain token ''failed to get name''\<rparr>]
        | Some mismatches \<Rightarrow>
            if expectedMismatches_name mismatches = Some (name data) then []
            else [\<lparr>type = Error,
                   message = tokenMessage folder chain token ''has incorrect name''\<rparr>])" for s
    by (auto simp: checkName_def split: option.split)
  show ?thesis
  proof (intro conjI impI)
    assume "overridesSymbol token = None \<and>
      contract_symbol e nd (address token) = Resolved onchain \<and> onchain \<noteq> symbol data"
    then have "results (checkName e nd folder chain token data em
                 (checkSymbol e nd folder chain token data em
                   (checkDecimals e nd folder chain token data s3))) =
        results (checkDecimals e nd folder chain token data s3) @
        (case em of
           None \<Rightarrow>
             [\<lparr>type = Error, message = tokenMessage folder chain token ''failed to get symbol''\<rparr>]
         | Some mismatches \<Rightarrow>
             if expectedMismatches_symbol mismatches = Some (symbol data) then []
             else [\<lparr>type = Error,
                    message = tokenMessage folder chain token ''has incorrect symbol''\<rparr>]) @
        results (checkName e nd folder chain token data em emptyState)"
      using name_after [of "checkSymbol e nd folder chain token data em
          (checkDecimals e nd folder chain token data s3)"]
        symbol_part [of "checkDecimals e nd folder chain token data s3"]
      by simp
    then show "validate e datadir requested =
        map_sum id
          (\<lambda>later.
             results (checkDecimals e nd folder chain token data s3) @
             (case em of
                None \<Rightarrow>
                  [\<lparr>type = Error,
                    message = tokenMessage folder chain token ''failed to get symbol''\<rparr>]
              | Some mismatches \<Rightarrow>
                  if expectedMismatches_symbol mismatches = Some (symbol data) then []
                  else [\<lparr>type = Error,
                         message = tokenMessage folder chain token ''has incorrect symbol''\<rparr>]) @
             results (checkName e nd folder chain token data em emptyState) @ later)
          (reportOf (afterToken e datadir folder data em ts2 fs2))"
      by (cases "reportOf (afterToken e datadir folder data em ts2 fs2)")
         (simp_all add: report)
  next
    assume "overridesName token = None \<and>
      contract_name e nd (address token) = Resolved onchain' \<and> onchain' \<noteq> name data"
    then have "results (checkName e nd folder chain token data em
                 (checkSymbol e nd folder chain token data em
                   (checkDecimals e nd folder chain token data s3))) =
        results (checkSymbol e nd folder chain token data em
                   (checkDecimals e nd folder chain token data s3)) @
        (case em of
           None \<Rightarrow>
             [\<lparr>type = Error, message = tokenMessage folder chain token ''failed to get name''\<rparr>]
         | Some mismatches \<Rightarrow>
             if expectedMismatches_name mismatches = Some (name data) then []
             else [\<lparr>type = Error,
                    message = tokenMessage folder chain token ''has incorrect name''\<rparr>])"
      using name_part [of "checkSymbol e nd folder chain token data em
          (checkDecimals e nd folder chain token data s3)"]
      by simp
    then show "validate e datadir requested =
        map_sum id
          (\<lambda>later.
             results (checkSymbol e nd folder chain token data em
                        (checkDecimals e nd folder chain token data s3)) @
             (case em of
                None \<Rightarrow>
                  [\<lparr>type = Error,
                    message = tokenMessage folder chain token ''failed to get name''\<rparr>]
              | Some mismatches \<Rightarrow>
                  if expectedMismatches_name mismatches = Some (name data) then []
                  else [\<lparr>type = Error,
                         message = tokenMessage folder chain token ''has incorrect name''\<rparr>]) @
             later)
          (reportOf (afterToken e datadir folder data em ts2 fs2))"
      by (cases "reportOf (afterToken e datadir folder data em ts2 fs2)")
         (simp_all add: report)
  qed
qed

theorem symbol_name_mismatch_error_unless_expected_witness:
  "overridesSymbol exampleToken = None \<and>
   contract_symbol exampleEnv specular_network (address exampleToken) = Resolved ''BAR'' \<and>
   ''BAR'' \<noteq> symbol exampleData \<and>
   overridesName exampleToken = None \<and>
   contract_name expectedEnv specular_network (address exampleToken) = Resolved ''Bar'' \<and>
   ''Bar'' \<noteq> name exampleData \<and>
   validate exampleEnv ''data'' None =
     Inr [\<lparr>type = Error,
           message = ''FOO on chain specular token 0xaaaaaaaaaaaaaaaaaaaaaaaaaaaaaaaaaaaaaaaa has incorrect decimals''\<rparr>,
          \<lparr>type = Error,
           message = ''FOO on chain specular token 0xaaaaaaaaaaaaaaaaaaaaaaaaaaaaaaaaaaaaaaaa has incorrect symbol''\<rparr>,
          \<lparr>type = Error,
           message = ''FOO on chain specular token 0xaaaaaaaaaaaaaaaaaaaaaaaaaaaaaaaaaaaaaaaa has incorrect name''\<rparr>] \<and>
   validate expectedEnv ''data'' None =
     Inr [\<lparr>type = Error,
           message = ''FOO on chain specular token 0xaaaaaaaaaaaaaaaaaaaaaaaaaaaaaaaaaaaaaaaa has incorrect decimals''\<rparr>]"
proof -
  have symbol_facts:
    "overridesSymbol exampleToken = None \<and>
     contract_symbol exampleEnv specular_network (address exampleToken) = Resolved ''BAR'' \<and>
     ''BAR'' \<noteq> symbol exampleData"
    by (simp add: overridesSymbol_def exampleToken_def exampleEnv_def exampleData_def)
  have name_facts:
    "overridesName exampleToken = None \<and>
     contract_name expectedEnv specular_network (address exampleToken) = Resolved ''Bar'' \<and>
     ''Bar'' \<noteq> name exampleData"
    by (simp add: overridesName_def exampleToken_def expectedEnv_def exampleEnv_def
        exampleData_def)
  have decimals: "results (checkDecimals exampleEnv specular_network ''FOO'' ''specular''
        exampleToken exampleData
        (request (GetCode specular_network (address exampleToken)) emptyState)) =
      [\<lparr>type = Error,
        message = ''FOO on chain specular token 0xaaaaaaaaaaaaaaaaaaaaaaaaaaaaaaaaaaaaaaaa has incorrect decimals''\<rparr>]"
    by (simp add: checkDecimals_def overridesDecimals_def example_messages)
       (simp add: exampleToken_def exampleEnv_def exampleData_def tokenMessage_def)
  have name: "results (checkName exampleEnv specular_network ''FOO'' ''specular''
        exampleToken exampleData (Some noMismatches) emptyState) =
      [\<lparr>type = Error,
        message = ''FOO on chain specular token 0xaaaaaaaaaaaaaaaaaaaaaaaaaaaaaaaaaaaaaaaa has incorrect name''\<rparr>]"
    by (simp add: checkName_def overridesName_def example_messages)
       (simp add: exampleToken_def exampleEnv_def exampleData_def tokenMessage_def)
  have before_name: "results (checkSymbol expectedEnv specular_network ''FOO'' ''specular''
        exampleToken exampleData (Some expectedRecord)
        (checkDecimals expectedEnv specular_network ''FOO'' ''specular'' exampleToken exampleData
          (request (GetCode specular_network (address exampleToken)) emptyState))) =
      [\<lparr>type = Error,
        message = ''FOO on chain specular token 0xaaaaaaaaaaaaaaaaaaaaaaaaaaaaaaaaaaaaaaaa has incorrect decimals''\<rparr>]"
    by (simp add: checkSymbol_def checkDecimals_def overridesDecimals_def overridesSymbol_def
        example_messages)
       (simp add: exampleToken_def expectedEnv_def exampleEnv_def exampleData_def
        tokenMessage_def)
  have declared: "symbol exampleData = ''FOO''" "name exampleData = ''Foo''"
    by (simp_all add: exampleData_def)
  note unexpected =
    symbol_name_mismatch_error_unless_expected
      [OF example_position, where onchain = "''BAR''" and onchain' = "''Bar''"]
  note expected =
    symbol_name_mismatch_error_unless_expected
      [OF expected_position, where onchain = "''BAR''" and onchain' = "''Bar''"]
  from unexpected symbol_facts
  have "validate exampleEnv ''data'' None =
     Inr [\<lparr>type = Error,
           message = ''FOO on chain specular token 0xaaaaaaaaaaaaaaaaaaaaaaaaaaaaaaaaaaaaaaaa has incorrect decimals''\<rparr>,
          \<lparr>type = Error,
           message = ''FOO on chain specular token 0xaaaaaaaaaaaaaaaaaaaaaaaaaaaaaaaaaaaaaaaa has incorrect symbol''\<rparr>,
          \<lparr>type = Error,
           message = ''FOO on chain specular token 0xaaaaaaaaaaaaaaaaaaaaaaaaaaaaaaaaaaaaaaaa has incorrect name''\<rparr>]"
    by (simp add: decimals name example_rest example_messages declared)
  moreover from expected name_facts
  have "validate expectedEnv ''data'' None =
     Inr [\<lparr>type = Error,
           message = ''FOO on chain specular token 0xaaaaaaaaaaaaaaaaaaaaaaaaaaaaaaaaaaaaaaaa has incorrect decimals''\<rparr>]"
    by (simp add: before_name example_rest declared)
  ultimately show ?thesis
    using symbol_facts name_facts by (simp only: simp_thms)
qed

lemma reportOf_simps [simp]:
  "reportOf (Inl (a, st)) = Inl a"
  "reportOf (Inr st) = Inr (results st)"
  by (simp_all add: reportOf_def)

text \<open>
  Claim C2 (as amended).  The record is compared with the declared value, never with the
  value read from the chain: with no override and a resolved query that differs from the
  declared symbol (resp. name), the check adds nothing exactly when the record holds the
  declared value, whatever the chain returned.  A \<^verbatim>\<open>null\<close> record excuses nothing.
\<close>

theorem expected_mismatch_compared_with_declared_value:
  "(overridesSymbol token = None \<and>
    contract_symbol e nd (address token) = Resolved onchain \<and>
    onchain \<noteq> symbol data \<longrightarrow>
    (results (checkSymbol e nd folder chain token data (Some expectedMismatches) st) =
       results st) =
    (expectedMismatches_symbol expectedMismatches = Some (symbol data)) \<and>
    results (checkSymbol e nd folder chain token data None st) \<noteq> results st) \<and>
   (overridesName token = None \<and>
    contract_name e nd (address token) = Resolved onchain' \<and>
    onchain' \<noteq> name data \<longrightarrow>
    (results (checkName e nd folder chain token data (Some expectedMismatches) st) =
       results st) =
    (expectedMismatches_name expectedMismatches = Some (name data)) \<and>
    results (checkName e nd folder chain token data None st) \<noteq> results st)"
  by (auto simp: checkSymbol_def checkName_def)

theorem expected_mismatch_compared_with_declared_value_witness:
  "overridesSymbol exampleToken = None \<and>
   contract_symbol exampleEnv sepolia_network (address exampleToken) = Resolved ''BAR'' \<and>
   ''BAR'' \<noteq> symbol exampleData \<and>
   overridesName exampleToken = None \<and>
   contract_name exampleEnv sepolia_network (address exampleToken) = Resolved ''Bar'' \<and>
   ''Bar'' \<noteq> name exampleData \<and>
   results (checkSymbol exampleEnv sepolia_network ''FOO'' ''sepolia'' exampleToken exampleData
              (Some \<lparr>expectedMismatches_symbol = Some ''FOO'',
                     expectedMismatches_name = Some ''Foo''\<rparr>)
              emptyState) = results emptyState \<and>
   results (checkSymbol exampleEnv sepolia_network ''FOO'' ''sepolia'' exampleToken exampleData
              (Some \<lparr>expectedMismatches_symbol = Some ''BAR'',
                     expectedMismatches_name = Some ''Bar''\<rparr>)
              emptyState) \<noteq> results emptyState \<and>
   results (checkName exampleEnv sepolia_network ''FOO'' ''sepolia'' exampleToken exampleData
              (Some \<lparr>expectedMismatches_symbol = Some ''FOO'',
                     expectedMismatches_name = Some ''Foo''\<rparr>)
              emptyState) = results emptyState \<and>
   results (checkName exampleEnv sepolia_network ''FOO'' ''sepolia'' exampleToken exampleData
              (Some \<lparr>expectedMismatches_symbol = Some ''BAR'',
                     expectedMismatches_name = Some ''Bar''\<rparr>)
              emptyState) \<noteq> results emptyState"
proof -
  have hyps:
    "overridesSymbol exampleToken = None \<and>
     contract_symbol exampleEnv sepolia_network (address exampleToken) = Resolved ''BAR'' \<and>
     ''BAR'' \<noteq> symbol exampleData"
    "overridesName exampleToken = None \<and>
     contract_name exampleEnv sepolia_network (address exampleToken) = Resolved ''Bar'' \<and>
     ''Bar'' \<noteq> name exampleData"
    by (simp_all add: overridesSymbol_def overridesName_def exampleToken_def exampleEnv_def
        exampleData_def)
  have declared: "symbol exampleData = ''FOO''" "name exampleData = ''Foo''"
    by (simp_all add: exampleData_def)
  note declared_value =
    expected_mismatch_compared_with_declared_value
      [where token = exampleToken and e = exampleEnv and nd = sepolia_network
        and onchain = "''BAR''" and onchain' = "''Bar''" and data = exampleData
        and folder = "''FOO''" and chain = "''sepolia''"
        and expectedMismatches =
          "\<lparr>expectedMismatches_symbol = Some ''FOO'', expectedMismatches_name = Some ''Foo''\<rparr>"
        and st = emptyState]
  note onchain_value =
    expected_mismatch_compared_with_declared_value
      [where token = exampleToken and e = exampleEnv and nd = sepolia_network
        and onchain = "''BAR''" and onchain' = "''Bar''" and data = exampleData
        and folder = "''FOO''" and chain = "''sepolia''"
        and expectedMismatches =
          "\<lparr>expectedMismatches_symbol = Some ''BAR'', expectedMismatches_name = Some ''Bar''\<rparr>"
        and st = emptyState]
  from declared_value onchain_value hyps show ?thesis
    by (simp add: declared)
qed

text \<open>
  The claim as it was stated fails: the declared symbol is \<^verbatim>\<open>FOO\<close>, the chain returns
  \<^verbatim>\<open>BAR\<close>.  With the record \<^verbatim>\<open>FOO\<close> (which is not the on-chain value) the mismatch is
  excused; with the record \<^verbatim>\<open>BAR\<close> (which is the on-chain value) it is an error.
\<close>

theorem expected_mismatch_onchain_value_counterexample:
  "symbol exampleData = ''FOO'' \<and>
   contract_symbol exampleEnv specular_network (address exampleToken) = Resolved ''BAR'' \<and>
   results (checkSymbol exampleEnv specular_network ''FOO'' ''specular'' exampleToken exampleData
              (Some \<lparr>expectedMismatches_symbol = Some ''FOO'', expectedMismatches_name = None\<rparr>)
              emptyState) = [] \<and>
   results (checkSymbol exampleEnv specular_network ''FOO'' ''specular'' exampleToken exampleData
              (Some \<lparr>expectedMismatches_symbol = Some ''BAR'', expectedMismatches_name = None\<rparr>)
              emptyState) =
     [\<lparr>type = Error,
       message = ''FOO on chain specular token 0xaaaaaaaaaaaaaaaaaaaaaaaaaaaaaaaaaaaaaaaa has incorrect symbol''\<rparr>]"
  by (simp add: checkSymbol_def overridesSymbol_def exampleToken_def exampleEnv_def
      exampleData_def emptyState_def tokenMessage_def)

text \<open>
  Claim C3.  For a chain-verified pair with no decimals override, when the decimals query
  resolves to a value that differs from the declared decimals, the report holds exactly
  one error at the place of that check, between what the existence check left and what
  the symbol and name checks add.  This is so for every expected-mismatches record,
  \<^verbatim>\<open>null\<close> included: the decimals check does not read it.
\<close>

theorem decimals_mismatch_exactly_one_error:
  assumes "readdirSync e datadir = Some listing"
    and "selectFolders e listing requested = fs1 @ folder # fs2"
    and "validateFolders e (fetch_coingecko e) datadir fs1 (fetchCoinGecko e) = Inr s1"
    and "data_json (folder_files e datadir folder) = Parsed data"
    and "expectedMismatches_json (folder_files e datadir folder) = Missing \<and>
           em = Some noMismatches \<or>
         expectedMismatches_json (folder_files e datadir folder) = Parsed em"
    and "schema_errors (folder_files e datadir folder) = []"
    and "tokens data = ts1 @ (chain, token) # ts2"
    and "validateTokens e (fetch_coingecko e) folder data em ts1
           (logoCheck folder (logofiles (folder_files e datadir folder)) s1) = Inr s2"
    and "chainVerified folder data"
    and "NETWORK_DATA chain = Some nd"
    and "checkExists e nd folder chain token s2 = Inr s3"
    and "overridesDecimals token = None"
    and "contract_decimals e nd (address token) = Resolved onchain"
    and "onchain \<noteq> decimals data"
  shows "validate e datadir requested =
           map_sum id
             (\<lambda>later.
                results s3 @
                [\<lparr>type = Error,
                  message = tokenMessage folder chain token ''has incorrect decimals''\<rparr>] @
                results (checkSymbol e nd folder chain token data em emptyState) @
                results (checkName e nd folder chain token data em emptyState) @ later)
             (reportOf (afterToken e datadir folder data em ts2 fs2))"
proof -
  note report = validate_at_verified_token [OF assms(1-11)]
  have decimals: "results (checkDecimals e nd folder chain token data s3) =
      results s3 @
      [\<lparr>type = Error, message = tokenMessage folder chain token ''has incorrect decimals''\<rparr>]"
    using assms(12-14) by (simp add: checkDecimals_def)
  have "results (checkName e nd folder chain token data em
                 (checkSymbol e nd folder chain token data em
                   (checkDecimals e nd folder chain token data s3))) =
      results s3 @
      [\<lparr>type = Error, message = tokenMessage folder chain token ''has incorrect decimals''\<rparr>] @
      results (checkSymbol e nd folder chain token data em emptyState) @
      results (checkName e nd folder chain token data em emptyState)"
    using checkName_from_empty [of e nd folder chain token data em
        "checkSymbol e nd folder chain token data em
          (checkDecimals e nd folder chain token data s3)"]
      checkSymbol_from_empty [of e nd folder chain token data em
        "checkDecimals e nd folder chain token data s3"]
      decimals
    by simp
  then show ?thesis
    by (cases "reportOf (afterToken e datadir folder data em ts2 fs2)")
       (simp_all add: report)
qed

theorem decimals_mismatch_exactly_one_error_witness:
  "overridesDecimals exampleToken = None \<and>
   contract_decimals expectedEnv specular_network (address exampleToken) = Resolved 6 \<and>
   6 \<noteq> decimals exampleData \<and>
   expectedMismatches_json (folder_files expectedEnv ''data'' ''FOO'') =
     Parsed (Some expectedRecord) \<and>
   validate expectedEnv ''data'' None =
     Inr [\<lparr>type = Error,
           message = ''FOO on chain specular token 0xaaaaaaaaaaaaaaaaaaaaaaaaaaaaaaaaaaaaaaaa has incorrect decimals''\<rparr>]"
proof -
  have h1: "overridesDecimals exampleToken = None"
    by (simp add: overridesDecimals_def exampleToken_def)
  have h2: "contract_decimals expectedEnv specular_network (address exampleToken) = Resolved 6"
    by (simp add: expectedEnv_def exampleEnv_def)
  have h3: "6 \<noteq> decimals exampleData"
    by (simp add: exampleData_def)
  have mismatches_file: "expectedMismatches_json (folder_files expectedEnv ''data'' ''FOO'') =
      Parsed (Some expectedRecord)"
    by (simp add: expectedEnv_def)
  have symbol: "results (checkSymbol expectedEnv specular_network ''FOO'' ''specular''
        exampleToken exampleData (Some expectedRecord) emptyState) = []"
    by (simp add: checkSymbol_def overridesSymbol_def)
       (simp add: exampleToken_def expectedEnv_def exampleEnv_def exampleData_def)
  have name: "results (checkName expectedEnv specular_network ''FOO'' ''specular''
        exampleToken exampleData (Some expectedRecord) emptyState) = []"
    by (simp add: checkName_def overridesName_def)
       (simp add: exampleToken_def expectedEnv_def exampleEnv_def exampleData_def)
  from decimals_mismatch_exactly_one_error [OF expected_position h1 h2 h3]
  have "validate expectedEnv ''data'' None =
     Inr [\<lparr>type = Error,
           message = ''FOO on chain specular token 0xaaaaaaaaaaaaaaaaaaaaaaaaaaaaaaaaaaaaaaaa has incorrect decimals''\<rparr>]"
    by (simp add: symbol name example_rest example_messages)
  with h1 h2 h3 mismatches_file show ?thesis
    by (simp only: simp_thms)
qed



section \<open>Entries that are not checked on chain\<close>




text \<open>
  Claim C9.  For the folder \<^verbatim>\<open>ETH\<close>, and for an entry with \<^verbatim>\<open>nonstandard\<close> true, the
  loop over the declared tokens changes nothing, whatever chains and tokens the entry
  declares: no diagnostic is added, no request is made and no exception is thrown.
\<close>

theorem exempt_entry_no_chain_checks:
  assumes "folder = ''ETH'' \<or> nonstandard data = Some True"
  shows "validateTokens e cg folder data expectedMismatches entries st = Inr st \<and>
         validateEntry e cg folder data expectedMismatches [] st = Inr st"
proof -
  have skip: "\<not> chainVerified folder data"
    using assms by (auto simp: chainVerified_def)
  have loop: "validateTokens e cg folder data expectedMismatches es st = Inr st" for es
    by (induction es) (simp_all add: validateToken_skipped [OF skip])
  show ?thesis
    by (simp add: validateEntry_def loop)
qed

theorem exempt_entry_no_chain_checks_witness:
  "validateTokens exampleEnv (Some []) ''ETH'' exampleData (Some noMismatches)
     [(''specular'', exampleToken), (''ethereum'', exampleToken)] emptyState = Inr emptyState \<and>
   validateEntry exampleEnv (Some []) ''ETH'' exampleData (Some noMismatches) [] emptyState =
     Inr emptyState \<and>
   nonstandard (exampleData\<lparr>nonstandard := Some True\<rparr>) = Some True \<and>
   validateTokens exampleEnv (Some []) ''FOO'' (exampleData\<lparr>nonstandard := Some True\<rparr>)
     (Some noMismatches) [(''specular'', exampleToken), (''ethereum'', exampleToken)]
     emptyState = Inr emptyState \<and>
   validateEntry exampleEnv (Some []) ''FOO'' (exampleData\<lparr>nonstandard := Some True\<rparr>)
     (Some noMismatches) [] emptyState = Inr emptyState"
proof -
  have eth: "''ETH'' = ''ETH'' \<or> nonstandard exampleData = Some True"
    by simp
  have ns: "''FOO'' = ''ETH'' \<or> nonstandard (exampleData\<lparr>nonstandard := Some True\<rparr>) = Some True"
    by simp
  have a: "validateTokens exampleEnv (Some []) ''ETH'' exampleData (Some noMismatches)
        [(''specular'', exampleToken), (''ethereum'', exampleToken)] emptyState = Inr emptyState \<and>
      validateEntry exampleEnv (Some []) ''ETH'' exampleData (Some noMismatches) [] emptyState =
        Inr emptyState"
    by (rule exempt_entry_no_chain_checks [OF eth])
  have b: "validateTokens exampleEnv (Some []) ''FOO'' (exampleData\<lparr>nonstandard := Some True\<rparr>)
        (Some noMismatches) [(''specular'', exampleToken), (''ethereum'', exampleToken)]
        emptyState = Inr emptyState \<and>
      validateEntry exampleEnv (Some []) ''FOO'' (exampleData\<lparr>nonstandard := Some True\<rparr>)
        (Some noMismatches) [] emptyState = Inr emptyState"
    by (rule exempt_entry_no_chain_checks [OF ns])
  have c: "nonstandard (exampleData\<lparr>nonstandard := Some True\<rparr>) = Some True"
    by simp
  show ?thesis
    by (rule conjI [OF conjunct1 [OF a] conjI [OF conjunct2 [OF a] conjI [OF c b]]])
qed

section \<open>The CoinGecko list\<close>

text \<open>
  Claim C7.  When the fetch of the CoinGecko list fails, the run starts with exactly one
  warning, the CoinGecko check of every token does nothing, and the run ends as the
  same run with the list fetched does (the same exception, or the same results), with
  that one warning in front.
\<close>

theorem fetch_failure_one_warning_rest_unchanged:
  assumes "fetch_coingecko e = None"
  shows "fetchCoinGecko e =
           \<lparr>results = [\<lparr>type = Warning, message = ''fetch for CoinGecko token list failed''\<rparr>],
            requests = []\<rparr> \<and>
         checkCoinGecko e (fetch_coingecko e) folder chain token st = st \<and>
         validate e datadir requested =
           map_sum id ((#) \<lparr>type = Warning, message = ''fetch for CoinGecko token list failed''\<rparr>)
             (validate (e\<lparr>fetch_coingecko := Some cg\<rparr>) datadir requested)"
proof -
  let ?w = "\<lparr>type = Warning, message = ''fetch for CoinGecko token list failed''\<rparr>"
  let ?ws = "\<lparr>results = [?w], requests = []\<rparr>"
  let ?e' = "e\<lparr>fetch_coingecko := Some cg\<rparr>"
  have start: "fetchCoinGecko e = ?ws"
    using assms by (simp add: fetchCoinGecko_def push_def emptyState_def)
  have from_start: "validateFolders e None datadir fs ?ws =
      extendOutcome ?ws (validateFolders e None datadir fs emptyState)" for fs
    by (rule validateFolders_from_empty)
  have start': "fetchCoinGecko ?e' = emptyState"
    by (simp add: fetchCoinGecko_def)
  have folders: "selectFolders ?e' listing requested = selectFolders e listing requested"
    for listing
    by (simp add: selectFolders_def)
  have loop: "validateFolders ?e' (Some cg) datadir fs emptyState =
      validateFolders e None datadir fs emptyState" for fs
    using validateFolders_cg [of e "Some cg" datadir fs emptyState None]
    by (simp add: validateFolders_env)
  have final: "checkFinalList ?e' datadir s = checkFinalList e datadir s" for s
    by (simp add: checkFinalList_def)
  have "validate e datadir requested = map_sum id ((#) ?w) (validate ?e' datadir requested)"
  proof (cases "readdirSync e datadir")
    case None
    then show ?thesis
      by (simp add: validate_def run_def reportOf_def)
  next
    case (Some listing)
    have run: "run e datadir requested = extendOutcome ?ws (run ?e' datadir requested)"
    proof (cases "validateFolders e None datadir (selectFolders e listing requested) emptyState")
      case (Inl a)
      then show ?thesis
        using Some assms
        by (cases a) (simp add: run_def start start' folders loop from_start)
    next
      case (Inr st)
      then show ?thesis
        using Some assms
        by (simp add: run_def start start' folders loop final from_start
            checkFinalList_extend)
    qed
    show ?thesis
      by (cases "run ?e' datadir requested")
         (auto simp: validate_def run reportOf_def extend_def)
  qed
  then show ?thesis
    using assms by (simp add: fetchCoinGecko_def push_def checkCoinGecko_def emptyState_def)
qed

theorem fetch_failure_one_warning_rest_unchanged_witness:
  "fetch_coingecko (exampleEnv\<lparr>fetch_coingecko := None\<rparr>) = None \<and>
   fetchCoinGecko (exampleEnv\<lparr>fetch_coingecko := None\<rparr>) =
     \<lparr>results = [\<lparr>type = Warning, message = ''fetch for CoinGecko token list failed''\<rparr>],
      requests = []\<rparr> \<and>
   validate (exampleEnv\<lparr>fetch_coingecko := None\<rparr>) ''data'' None =
     Inr [\<lparr>type = Warning, message = ''fetch for CoinGecko token list failed''\<rparr>,
          \<lparr>type = Error,
           message = ''FOO on chain specular token 0xaaaaaaaaaaaaaaaaaaaaaaaaaaaaaaaaaaaaaaaa has incorrect decimals''\<rparr>,
          \<lparr>type = Error,
           message = ''FOO on chain specular token 0xaaaaaaaaaaaaaaaaaaaaaaaaaaaaaaaaaaaaaaaa has incorrect symbol''\<rparr>,
          \<lparr>type = Error,
           message = ''FOO on chain specular token 0xaaaaaaaaaaaaaaaaaaaaaaaaaaaaaaaaaaaaaaaa has incorrect name''\<rparr>]"
proof -
  have h: "fetch_coingecko (exampleEnv\<lparr>fetch_coingecko := None\<rparr>) = None"
    by simp
  have fetched: "validate (exampleEnv\<lparr>fetch_coingecko := Some []\<rparr>) ''data'' None =
     Inr [\<lparr>type = Error,
           message = ''FOO on chain specular token 0xaaaaaaaaaaaaaaaaaaaaaaaaaaaaaaaaaaaaaaaa has incorrect decimals''\<rparr>,
          \<lparr>type = Error,
           message = ''FOO on chain specular token 0xaaaaaaaaaaaaaaaaaaaaaaaaaaaaaaaaaaaaaaaa has incorrect symbol''\<rparr>,
          \<lparr>type = Error,
           message = ''FOO on chain specular token 0xaaaaaaaaaaaaaaaaaaaaaaaaaaaaaaaaaaaaaaaa has incorrect name''\<rparr>]"
    apply (simp add: validate_def run_def selectFolders_def sortBy_def exampleEnv_def
        fetchCoinGecko_def)
    apply (simp add: validateFolder_def exampleFiles_def logoCheck_def validateEntry_def
        exampleData_def)
    apply (simp add: validateToken_def chainVerified_def NETWORK_DATA_def checkExists_def
        exampleToken_def)
    apply (simp add: checkDecimals_def checkSymbol_def checkName_def checkCoinGecko_def
        overridesDecimals_def overridesSymbol_def overridesName_def)
    apply (simp add: push_def request_def tokenMessage_def checkFinalList_def emptyState_def)
    done
  from fetch_failure_one_warning_rest_unchanged [OF h, where cg = "[]" and datadir = "''data''"
      and requested = None] fetched
  show ?thesis
    by simp
qed



section \<open>The requested tokens\<close>

text \<open>
  Claim C10.  With an empty list of requested tokens no folder passes the filter, and
  the run consists of the reading of the directory, the fetch of the CoinGecko list and
  the check of the generated list: it ends with the exception of the reading or of the
  generation, or its results are at most the fetch warning and the final error.  With
  no list (null or undefined) every folder of the directory is kept, in sorted order.
  A list that is not null keeps the folders it names: it keeps all of them exactly when
  it names every folder of the directory, and then the run is the run with no list.
\<close>

theorem empty_token_list_selects_no_folder:
  "selectFolders e listing (Some []) = [] \<and>
   selectFolders e listing None =
     sortBy (\<lambda>a b. localeCompare e (toLowerCase e a) (toLowerCase e b)) listing \<and>
   set (selectFolders e listing None) = set listing \<and>
   set (selectFolders e listing (Some ts)) = set listing \<inter> set ts \<and>
   (selectFolders e listing (Some ts) = selectFolders e listing None) = (set listing \<subseteq> set ts) \<and>
   (readdirSync e datadir = Some listing \<and> set listing \<subseteq> set ts \<longrightarrow>
      validate e datadir (Some ts) = validate e datadir None) \<and>
   validate e datadir (Some []) =
     (case readdirSync e datadir of
        None \<Rightarrow> Inl (ENOENT datadir)
      | Some listing \<Rightarrow>
          (case generate_list e datadir of
             GenerateThrows \<Rightarrow> Inl GenerateError
           | ListValid \<Rightarrow> Inr (results (fetchCoinGecko e))
           | ListInvalid errs \<Rightarrow>
               Inr (results (fetchCoinGecko e) @
                    [\<lparr>type = Error, message = ''final token list is invalid: '' @ errs\<rparr>]))) \<and>
   results (fetchCoinGecko e) =
     (case fetch_coingecko e of
        None \<Rightarrow> [\<lparr>type = Warning, message = ''fetch for CoinGecko token list failed''\<rparr>]
      | Some cg \<Rightarrow> [])"
proof -
  let ?sorted = "sortBy (\<lambda>a b. localeCompare e (toLowerCase e a) (toLowerCase e b)) listing"
  have none: "selectFolders e listing (Some []) = []"
    by (simp add: selectFolders_def)
  have all: "selectFolders e listing None = ?sorted"
    by (simp add: selectFolders_def)
  have all_set: "set (selectFolders e listing None) = set listing"
    by (simp add: all set_sortBy)
  have some_set: "set (selectFolders e listing (Some ts)) = set listing \<inter> set ts"
    by (auto simp: selectFolders_def set_sortBy)
  have same: "(selectFolders e listing (Some ts) = selectFolders e listing None) =
      (set listing \<subseteq> set ts)"
    by (auto simp: selectFolders_def filter_id_conv set_sortBy)
  have same_run: "readdirSync e datadir = Some listing \<and> set listing \<subseteq> set ts \<longrightarrow>
      validate e datadir (Some ts) = validate e datadir None"
  proof (intro impI, elim conjE)
    assume listed: "readdirSync e datadir = Some listing" and named: "set listing \<subseteq> set ts"
    from same named have "selectFolders e listing (Some ts) = selectFolders e listing None"
      by simp
    with listed show "validate e datadir (Some ts) = validate e datadir None"
      by (simp add: validate_def run_def)
  qed
  have empty_run: "validate e datadir (Some []) =
     (case readdirSync e datadir of
        None \<Rightarrow> Inl (ENOENT datadir)
      | Some listing \<Rightarrow>
          (case generate_list e datadir of
             GenerateThrows \<Rightarrow> Inl GenerateError
           | ListValid \<Rightarrow> Inr (results (fetchCoinGecko e))
           | ListInvalid errs \<Rightarrow>
               Inr (results (fetchCoinGecko e) @
                    [\<lparr>type = Error, message = ''final token list is invalid: '' @ errs\<rparr>])))"
    by (simp add: selectFolders_def validate_def run_def checkFinalList_def reportOf_def
        push_def split: final_list.split option.split)
  have start: "results (fetchCoinGecko e) =
     (case fetch_coingecko e of
        None \<Rightarrow> [\<lparr>type = Warning, message = ''fetch for CoinGecko token list failed''\<rparr>]
      | Some cg \<Rightarrow> [])"
    by (simp add: fetchCoinGecko_def push_def emptyState_def split: option.split)
  from none all all_set some_set same same_run empty_run start show ?thesis
    by (simp only: simp_thms)
qed

theorem empty_token_list_selects_no_folder_witness:
  "selectFolders exampleEnv [''FOO''] (Some []) = [] \<and>
   selectFolders exampleEnv [''FOO''] None = [''FOO''] \<and>
   readdirSync exampleEnv ''data'' = Some [''FOO''] \<and>
   set [''FOO''] \<subseteq> set [''BAZ'', ''FOO''] \<and>
   selectFolders exampleEnv [''FOO''] (Some [''BAZ'', ''FOO'']) =
     selectFolders exampleEnv [''FOO''] None \<and>
   validate exampleEnv ''data'' (Some [''BAZ'', ''FOO'']) = validate exampleEnv ''data'' None \<and>
   validate exampleEnv ''data'' (Some []) = Inr [] \<and>
   validate (exampleEnv\<lparr>fetch_coingecko := None,
               generate_list := (\<lambda>datadir. ListInvalid ''[]'')\<rparr>) ''data'' (Some []) =
     Inr [\<lparr>type = Warning, message = ''fetch for CoinGecko token list failed''\<rparr>,
          \<lparr>type = Error, message = ''final token list is invalid: []''\<rparr>]"
proof -
  have env: "generate_list exampleEnv ''data'' = ListValid" "fetch_coingecko exampleEnv = Some []"
    "readdirSync exampleEnv ''data'' = Some [''FOO'']"
    "sortBy (\<lambda>a b. localeCompare exampleEnv (toLowerCase exampleEnv a) (toLowerCase exampleEnv b))
       [''FOO''] = [''FOO'']"
    by (simp_all add: exampleEnv_def sortBy_def)
  have env': "readdirSync (exampleEnv\<lparr>fetch_coingecko := None,
               generate_list := (\<lambda>datadir. ListInvalid ''[]'')\<rparr>) ''data'' = Some [''FOO'']"
    by (simp add: exampleEnv_def)
  from empty_token_list_selects_no_folder
      [of exampleEnv "[''FOO'']" "[''BAZ'', ''FOO'']" "''data''"]
    empty_token_list_selects_no_folder
      [of "exampleEnv\<lparr>fetch_coingecko := None,
             generate_list := (\<lambda>datadir. ListInvalid ''[]'')\<rparr>" "[''FOO'']" "[]" "''data''"]
  show ?thesis
    by (simp add: env env')
qed

text \<open>
  The list \<^verbatim>\<open>['FOO']\<close> is not null, and on a directory holding the one folder \<^verbatim>\<open>FOO\<close>
  every folder is processed: the run is the run with no list, with the diagnostics of
  the folder.
\<close>

theorem nonnull_list_naming_every_folder_counterexample:
  "Some [''FOO''] \<noteq> (None :: string list option) \<and>
   readdirSync exampleEnv ''data'' = Some [''FOO''] \<and>
   selectFolders exampleEnv [''FOO''] (Some [''FOO'']) = [''FOO''] \<and>
   selectFolders exampleEnv [''FOO''] None = [''FOO''] \<and>
   validate exampleEnv ''data'' (Some [''FOO'']) =
     Inr [\<lparr>type = Error,
           message = ''FOO on chain specular token 0xaaaaaaaaaaaaaaaaaaaaaaaaaaaaaaaaaaaaaaaa has incorrect decimals''\<rparr>,
          \<lparr>type = Error,
           message = ''FOO on chain specular token 0xaaaaaaaaaaaaaaaaaaaaaaaaaaaaaaaaaaaaaaaa has incorrect symbol''\<rparr>,
          \<lparr>type = Error,
           message = ''FOO on chain specular token 0xaaaaaaaaaaaaaaaaaaaaaaaaaaaaaaaaaaaaaaaa has incorrect name''\<rparr>]"
proof -
  have listing: "readdirSync exampleEnv ''data'' = Some [''FOO'']"
    by (simp add: exampleEnv_def)
  have selected: "selectFolders exampleEnv [''FOO''] (Some [''FOO'']) = [''FOO'']"
    "selectFolders exampleEnv [''FOO''] None = [''FOO'']"
    by (simp_all add: selectFolders_def sortBy_def)
  have report: "validate exampleEnv ''data'' (Some [''FOO'']) =
     Inr [\<lparr>type = Error,
           message = ''FOO on chain specular token 0xaaaaaaaaaaaaaaaaaaaaaaaaaaaaaaaaaaaaaaaa has incorrect decimals''\<rparr>,
          \<lparr>type = Error,
           message = ''FOO on chain specular token 0xaaaaaaaaaaaaaaaaaaaaaaaaaaaaaaaaaaaaaaaa has incorrect symbol''\<rparr>,
          \<lparr>type = Error,
           message = ''FOO on chain specular token 0xaaaaaaaaaaaaaaaaaaaaaaaaaaaaaaaaaaaaaaaa has incorrect name''\<rparr>]"
    apply (simp add: validate_def run_def listing selected)
    apply (simp add: exampleEnv_def fetchCoinGecko_def)
    apply (simp add: validateFolder_def exampleFiles_def logoCheck_def validateEntry_def
        exampleData_def)
    apply (simp add: validateToken_def chainVerified_def NETWORK_DATA_def checkExists_def
        exampleToken_def)
    apply (simp add: checkDecimals_def checkSymbol_def checkName_def checkCoinGecko_def
        overridesDecimals_def overridesSymbol_def overridesName_def)
    apply (simp add: push_def request_def tokenMessage_def checkFinalList_def emptyState_def
        reportOf_def exampleEnv_def)
    done
  from listing selected report show ?thesis
    by (simp only: simp_thms option.distinct not_False_eq_True)
qed

end
